theory Spec2Isabelle
  imports Main
begin

section \<open>Decoder owner (src/input/decoder.c)\<close>

text \<open>
  Return codes of the controller functions. Only the two codes that
  \<^verbatim>\<open>decoder.c\<close> returns are needed; their numeric values play no role.
\<close>

datatype vlc_status = VLC_SUCCESS | VLC_EGENERIC

text \<open>
  The closed-caption part of \<^verbatim>\<open>struct decoder_owner_sys_t\<close>: the presence mask
  \<^verbatim>\<open>pb_present[4]\<close> and the four sub-decoder pointers \<^verbatim>\<open>pp_decoder[4]\<close>
  (a null pointer is \<open>None\<close>, a live sub-decoder is \<open>Some\<close> of its handle).
\<close>

record cc_state =
  b_supported :: bool
  pb_present :: "bool list"
  pp_decoder :: "nat option list"

text \<open>
  \<^verbatim>\<open>input_DecoderGetCcState\<close>: the pair is the returned code and the value left
  in \<^verbatim>\<open>*pb_decode\<close>. The function first stores false, then rejects a channel
  outside \<open>0..3\<close> or one that is not present, and otherwise stores whether the
  sub-decoder pointer is non-null. Both \<^verbatim>\<open>return\<close> statements give
  \<^verbatim>\<open>VLC_EGENERIC\<close>.
\<close>

definition input_DecoderGetCcState :: "cc_state \<Rightarrow> int \<Rightarrow> vlc_status \<times> bool" where
  "input_DecoderGetCcState cc i_channel =
     (if i_channel < 0 \<or> i_channel \<ge> 4 \<or> \<not> pb_present cc ! nat i_channel
      then (VLC_EGENERIC, False)
      else (VLC_EGENERIC, pp_decoder cc ! nat i_channel \<noteq> None))"


subsection \<open>Blocks and the block FIFO\<close>

text \<open>
  A block carries a flag word, a payload size and two timestamps. The flag word
  is kept as the set of flags that are raised; the flags named below are the ones
  \<^verbatim>\<open>decoder.c\<close> tests or raises, \<open>BLOCK_FLAG_CORE_FLUSH\<close> is the only
  core-private one among them, and \<open>BLOCK_FLAG_OTHER\<close> stands for the remaining
  bits of the word. The payload bytes themselves play no role in what follows.
\<close>

datatype block_flag =
    BLOCK_FLAG_DISCONTINUITY
  | BLOCK_FLAG_PREROLL
  | BLOCK_FLAG_CORRUPTED
  | BLOCK_FLAG_CORE_FLUSH
  | BLOCK_FLAG_CORE_PRIVATE nat
  | BLOCK_FLAG_OTHER nat

record block =
  i_flags :: "block_flag set"
  i_buffer :: nat
  i_dts :: int
  i_pts :: int

fun core_private :: "block_flag \<Rightarrow> bool" where
  "core_private BLOCK_FLAG_CORE_FLUSH = True"
| "core_private (BLOCK_FLAG_CORE_PRIVATE n) = True"
| "core_private f = False"

text \<open>\<^verbatim>\<open>p_block->i_flags &= ~BLOCK_FLAG_CORE_PRIVATE_MASK\<close>\<close>

definition clear_core_private :: "block \<Rightarrow> block" where
  "clear_core_private b = b\<lparr>i_flags := {f \<in> i_flags b. \<not> core_private f}\<rparr>"

definition VLC_TS_INVALID :: int where
  "VLC_TS_INVALID = 0"

definition INT64_MAX :: int where
  "INT64_MAX = 2 ^ 63 - 1"


text \<open>
  Division of C on \<^verbatim>\<open>int\<close> and \<^verbatim>\<open>int64_t\<close> truncates towards zero, whereas
  \<open>div\<close> of HOL rounds down.
\<close>

definition c_div :: "int \<Rightarrow> int \<Rightarrow> int" where
  "c_div a b = sgn a * sgn b * (\<bar>a\<bar> div \<bar>b\<bar>)"

text \<open>
  The values of \<^verbatim>\<open>int\<close> have 32 bits and those of \<^verbatim>\<open>int64_t\<close> (\<^verbatim>\<open>mtime_t\<close>)
  have 64. They are integers here, and every sum, difference and product of the
  code is brought back into the range of its type, as two's complement
  arithmetic does: \<open>int32\<close> and \<open>int64\<close> leave a value in range as it is and
  wrap one outside around.
\<close>

definition int32 :: "int \<Rightarrow> int" where
  "int32 x = (x + 2147483648) mod 4294967296 - 2147483648"


subsection \<open>The owner record\<close>

text \<open>
  The condition variables of the owner; \<open>fifo_wait\<close> is the one inside the block
  FIFO. A \<^verbatim>\<open>vlc_cond_signal\<close> is recorded in the field \<open>signals\<close>, a
  \<^verbatim>\<open>block_Release\<close> in the field \<open>released\<close>.
\<close>

datatype cond = wait_request | wait_acknowledge | wait_fifo | fifo_wait

datatype es_category = UNKNOWN_ES | VIDEO_ES | AUDIO_ES | SPU_ES

text \<open>
  The statistics counters that the decoding functions feed
  (\<^verbatim>\<open>p_input->p->counters\<close>).
\<close>

record counters =
  p_decoded_video :: int
  p_lost_pictures :: int
  p_displayed_pictures :: int
  p_decoded_audio :: int
  p_lost_abuffers :: int
  p_played_abuffers :: int
  p_decoded_sub :: int

text \<open>
  The decoder with its owner: \<open>b_error\<close> and \<open>fmt_out_cat\<close> are fields of
  \<^verbatim>\<open>decoder_t\<close>, the others of \<^verbatim>\<open>decoder_owner_sys_t\<close>. The record is
  extensible; its extension holds whatever the codec, the packetiser and the
  sinks keep.
\<close>

record decoder =
  b_error :: bool
  fmt_out_cat :: es_category
  i_preroll_end :: int
  b_packetizer :: bool
  fifo :: "block list"
  b_paused :: bool
  b_waiting :: bool
  b_first :: bool
  b_has_data :: bool
  b_flushing :: bool
  b_draining :: bool
  b_drained :: bool
  b_idle :: bool
  cc :: cc_state
  i_ts_delay :: int
  stats :: counters
  released :: "block list"
  signals :: "cond list"

definition block_Release :: "block \<Rightarrow> 'a decoder_scheme \<Rightarrow> 'a decoder_scheme" where
  "block_Release b d = d\<lparr>released := released d @ [b]\<rparr>"

definition vlc_cond_signal :: "cond \<Rightarrow> 'a decoder_scheme \<Rightarrow> 'a decoder_scheme" where
  "vlc_cond_signal c d = d\<lparr>signals := signals d @ [c]\<rparr>"

definition vlc_fifo_GetCount :: "'a decoder_scheme \<Rightarrow> nat" where
  "vlc_fifo_GetCount d = length (fifo d)"

definition vlc_fifo_GetBytes :: "'a decoder_scheme \<Rightarrow> nat" where
  "vlc_fifo_GetBytes d = sum_list (map i_buffer (fifo d))"

text \<open>\<^verbatim>\<open>vlc_fifo_QueueUnlocked\<close> appends the block and wakes one FIFO waiter.\<close>

definition vlc_fifo_QueueUnlocked :: "block \<Rightarrow> 'a decoder_scheme \<Rightarrow> 'a decoder_scheme" where
  "vlc_fifo_QueueUnlocked b d = vlc_cond_signal fifo_wait (d\<lparr>fifo := fifo d @ [b]\<rparr>)"

text \<open>
  \<^verbatim>\<open>block_ChainRelease( vlc_fifo_DequeueAllUnlocked( p_fifo ) )\<close>: the whole chain
  leaves the FIFO and is released.
\<close>

definition fifo_release_all :: "'a decoder_scheme \<Rightarrow> 'a decoder_scheme" where
  "fifo_release_all d = d\<lparr>fifo := [], released := released d @ fifo d\<rparr>"

subsection \<open>Waiting on a condition variable\<close>

text \<open>
  A thread that waits on a condition variable gives the lock away; when it wakes
  up, the other threads have changed the owner. The changes are given as a list
  of state transformers, one for each wake-up. A wait with no wake-up left
  never returns: the result is \<open>None\<close>.

  \<open>pace_wait\<close> is the loop
  \<^verbatim>\<open>while( vlc_fifo_GetCount( p_fifo ) >= 10 ) vlc_fifo_WaitCond( p_fifo, &wait_fifo );\<close>
  of \<^verbatim>\<open>input_DecoderDecode\<close>, \<open>flush_wait\<close> the loop
  \<^verbatim>\<open>while( p_owner->b_flushing ) vlc_cond_wait( &wait_acknowledge, &lock );\<close>
  of \<^verbatim>\<open>DecoderFlush\<close>.
\<close>

fun pace_wait ::
  "('a decoder_scheme \<Rightarrow> 'a decoder_scheme) list \<Rightarrow> 'a decoder_scheme \<Rightarrow> 'a decoder_scheme option"
where
  "pace_wait [] d = (if vlc_fifo_GetCount d \<ge> 10 then None else Some d)"
| "pace_wait (e # es) d = (if vlc_fifo_GetCount d \<ge> 10 then pace_wait es (e d) else Some d)"


subsection \<open>Queueing a block: \<^verbatim>\<open>input_DecoderDecode\<close>\<close>

text \<open>
  Without pacing, a FIFO of more than 400 MiB is dropped whole. With pacing the
  producer waits for fewer than ten queued blocks, unless the owner is in the
  waiting state (\<open>b_waiting\<close> is read once, before the loop). The block is
  queued in every case.
\<close>

definition input_DecoderDecode ::
  "('a decoder_scheme \<Rightarrow> 'a decoder_scheme) list \<Rightarrow> 'a decoder_scheme \<Rightarrow> block \<Rightarrow> bool
     \<Rightarrow> 'a decoder_scheme option"
where
  "input_DecoderDecode env d p_block b_do_pace =
     (if \<not> b_do_pace then
        Some (vlc_fifo_QueueUnlocked p_block
               (if vlc_fifo_GetBytes d > 400 * 1024 * 1024 then fifo_release_all d else d))
      else if \<not> b_waiting d then
        map_option (vlc_fifo_QueueUnlocked p_block) (pace_wait env d)
      else
        Some (vlc_fifo_QueueUnlocked p_block d))"

subsection \<open>Flushing: \<^verbatim>\<open>DecoderBlockFlushNew\<close>, \<^verbatim>\<open>DecoderFlush\<close>, \<^verbatim>\<open>DecoderProcessOnFlush\<close>\<close>





definition DecoderProcessOnFlush :: "'a decoder_scheme \<Rightarrow> 'a decoder_scheme" where
  "DecoderProcessOnFlush d =
     (if b_flushing d then vlc_cond_signal wait_acknowledge (d\<lparr>b_flushing := False\<rparr>) else d)"

subsection \<open>Processing one block: \<^verbatim>\<open>DecoderUpdatePreroll\<close>, \<^verbatim>\<open>DecoderProcess\<close>\<close>

definition DecoderUpdatePreroll :: "int \<Rightarrow> block \<Rightarrow> int" where
  "DecoderUpdatePreroll pi_preroll p =
     (if i_flags p \<inter> {BLOCK_FLAG_PREROLL, BLOCK_FLAG_DISCONTINUITY} \<noteq> {} then INT64_MAX
      else if i_dts p > VLC_TS_INVALID then min pi_preroll (i_dts p)
      else if i_pts p > VLC_TS_INVALID then min pi_preroll (i_pts p)
      else pi_preroll)"

text \<open>
  The four functions that \<^verbatim>\<open>DecoderProcess\<close> hands the block to drive the
  packetiser, the codec and the sinks, which are plugins. They are parameters:
  each takes the block (or none, to drain), the flush flag and the decoder.
\<close>

record 'a process_ops =
  DecoderProcessSout :: "block option \<Rightarrow> 'a decoder_scheme \<Rightarrow> 'a decoder_scheme"
  DecoderProcessAudio :: "block option \<Rightarrow> bool \<Rightarrow> 'a decoder_scheme \<Rightarrow> 'a decoder_scheme"
  DecoderProcessVideo :: "block option \<Rightarrow> bool \<Rightarrow> 'a decoder_scheme \<Rightarrow> 'a decoder_scheme"
  DecoderProcessSpu :: "block option \<Rightarrow> bool \<Rightarrow> 'a decoder_scheme \<Rightarrow> 'a decoder_scheme"

datatype dec_error = AssertionFailed

text \<open>
  \<open>enable_sout\<close> is the compile-time switch \<^verbatim>\<open>ENABLE_SOUT\<close>. A failed
  \<^verbatim>\<open>assert\<close> aborts the program: the result is \<open>Inl AssertionFailed\<close>. The
  label \<^verbatim>\<open>flush:\<close> is the function \<open>DecoderProcess_flush\<close>.
\<close>

definition DecoderProcess_flush :: "bool \<Rightarrow> 'a decoder_scheme \<Rightarrow> 'a decoder_scheme" where
  "DecoderProcess_flush b_flush_request d =
     (if b_flush_request then DecoderProcessOnFlush d else d)"

definition DecoderProcess ::
  "bool \<Rightarrow> 'a process_ops \<Rightarrow> block option \<Rightarrow> 'a decoder_scheme \<Rightarrow> dec_error + 'a decoder_scheme"
where
  "DecoderProcess enable_sout ops p_block d =
     (let b_flush_request =
            (case p_block of None \<Rightarrow> False | Some b \<Rightarrow> BLOCK_FLAG_CORE_FLUSH \<in> i_flags b)
      in
      if b_error d then
        Inr (DecoderProcess_flush b_flush_request
               (case p_block of None \<Rightarrow> d | Some b \<Rightarrow> block_Release b d))
      else
        case p_block of
          Some b \<Rightarrow>
            if i_buffer b \<le> 0 then
              (if b_flush_request then Inl AssertionFailed else Inr (block_Release b d))
            else if enable_sout \<and> b_packetizer d then
              Inr (DecoderProcess_flush b_flush_request
                     (DecoderProcessSout ops (Some (clear_core_private b)) d))
            else
              (let b_flushing_preroll = (i_preroll_end d = INT64_MAX);
                   d1 = d\<lparr>i_preroll_end := DecoderUpdatePreroll (i_preroll_end d) b\<rparr>;
                   b_flush = (\<not> b_flushing_preroll \<and> b_flush_request);
                   b' = clear_core_private b
               in Inr (DecoderProcess_flush b_flush_request
                    (if fmt_out_cat d1 = AUDIO_ES then DecoderProcessAudio ops (Some b') b_flush d1
                     else if fmt_out_cat d1 = VIDEO_ES then DecoderProcessVideo ops (Some b') b_flush d1
                     else if fmt_out_cat d1 = SPU_ES then DecoderProcessSpu ops (Some b') b_flush d1
                     else d1\<lparr>b_error := True\<rparr>)))
        | None \<Rightarrow>
            if enable_sout \<and> b_packetizer d then
              Inr (DecoderProcess_flush b_flush_request (DecoderProcessSout ops None d))
            else
              Inr (DecoderProcess_flush b_flush_request
                    (if fmt_out_cat d = AUDIO_ES then DecoderProcessAudio ops None False d
                     else if fmt_out_cat d = VIDEO_ES then DecoderProcessVideo ops None False d
                     else if fmt_out_cat d = SPU_ES then DecoderProcessSpu ops None False d
                     else d\<lparr>b_error := True\<rparr>)))"

subsection \<open>Timestamps: \<^verbatim>\<open>DecoderFixTs\<close>\<close>






section \<open>Video output (src/video_output/video_output.c)\<close>

subsection \<open>Pictures and the picture heap\<close>

text \<open>
  The picture types, statuses and aspect ratios are the named constants of the
  video headers; \<open>OTHER_PICTURE\<close> and \<open>AR_OTHER\<close> stand for any other value of
  the \<^verbatim>\<open>int\<close> fields.
\<close>

datatype picture_type =
  EMPTY_PICTURE | YUV_420_PICTURE | YUV_422_PICTURE | YUV_444_PICTURE | OTHER_PICTURE int

datatype picture_status =
    FREE_PICTURE
  | RESERVED_PICTURE
  | RESERVED_DATED_PICTURE
  | RESERVED_DISP_PICTURE
  | READY_PICTURE
  | DISPLAYED_PICTURE
  | DESTROYED_PICTURE

datatype aspect_ratio =
  AR_SQUARE_PICTURE | AR_3_4_PICTURE | AR_16_9_PICTURE | AR_221_1_PICTURE | AR_OTHER int

text \<open>
  \<^verbatim>\<open>picture_t\<close>. The buffer \<open>p_data\<close> is the address that \<^verbatim>\<open>malloc\<close> returned
  (\<open>None\<close> is the null pointer); each of the three plane pointers is kept as
  the buffer it points into and its offset there, counted in samples.
\<close>

record picture =
  i_type :: picture_type
  i_status :: picture_status
  i_matrix_coefficients :: int
  i_width :: int
  i_height :: int
  i_chroma_width :: int
  i_display_horizontal_offset :: int
  i_display_vertical_offset :: int
  i_display_width :: int
  i_display_height :: int
  i_aspect_ratio :: aspect_ratio
  i_refcount :: int
  date :: int
  p_data :: "nat option"
  p_y :: "nat option \<times> int"
  p_u :: "nat option \<times> int"
  p_v :: "nat option \<times> int"

text \<open>
  The C library's allocator: \<open>avail\<close> lists the addresses that the next calls
  of \<^verbatim>\<open>malloc\<close> return (none left: \<^verbatim>\<open>malloc\<close> returns null), \<open>malloc_log\<close> the
  sizes asked for and \<open>free_log\<close> the pointers given back.
\<close>

record allocator =
  avail :: "nat list"
  malloc_log :: "int list"
  free_log :: "nat option list"

definition malloc :: "int \<Rightarrow> allocator \<Rightarrow> nat option \<times> allocator" where
  "malloc sz a =
     (case avail a of
        [] \<Rightarrow> (None, a\<lparr>malloc_log := malloc_log a @ [sz]\<rparr>)
      | x # xs \<Rightarrow> (Some x, a\<lparr>avail := xs, malloc_log := malloc_log a @ [sz]\<rparr>))"

definition free :: "nat option \<Rightarrow> allocator \<Rightarrow> allocator" where
  "free p a = a\<lparr>free_log := free_log a @ [p]\<rparr>"

text \<open>
  The change flags \<^verbatim>\<open>i_changes\<close> of the output thread are kept as the set of
  raised flags.
\<close>

datatype vout_change =
    VOUT_GAMMA_CHANGE
  | VOUT_GRAYSCALE_CHANGE
  | VOUT_INFO_CHANGE
  | VOUT_INTF_CHANGE
  | VOUT_SCALE_CHANGE
  | VOUT_OTHER_CHANGE nat

text \<open>
  Compile-time configuration: the constants of \<^verbatim>\<open>config.h\<close> that the code
  uses, the mask \<^verbatim>\<open>VOUT_NODISPLAY_CHANGE\<close> of the video header, the size
  of a sample, the largest value \<^verbatim>\<open>SIZE_MAX\<close> of the unsigned type \<^verbatim>\<open>size_t\<close>,
  and the switches \<^verbatim>\<open>DEBUG\<close>, \<^verbatim>\<open>DEBUG_VIDEO\<close> and \<^verbatim>\<open>STATS\<close>. The capacity \<^verbatim>\<open>VOUT_MAX_PICTURES\<close> is the length of the picture
  list. Messages to the log are left out.
\<close>

record vout_config =
  VOUT_MAX_AREAS :: nat
  VOUT_DISPLAY_DELAY :: int
  VOUT_IDLE_SLEEP :: int
  VOUT_FPS_SAMPLES :: nat
  VOUT_NODISPLAY_CHANGE :: "vout_change set"
  sizeof_yuv_data_t :: int
  SIZE_MAX :: int
  DEBUG :: bool
  DEBUG_VIDEO :: bool
  STATS :: bool

subsection \<open>\<^verbatim>\<open>vout_DisplayPicture\<close>, \<^verbatim>\<open>vout_DatePicture\<close>, \<^verbatim>\<open>vout_DestroyPicture\<close>,
  \<^verbatim>\<open>vout_LinkPicture\<close>, \<^verbatim>\<open>vout_UnlinkPicture\<close>\<close>







subsection \<open>\<^verbatim>\<open>vout_CreatePicture\<close>\<close>

text \<open>
  The loop over the heap. It stops with \<open>Inl i\<close> at the first destroyed picture
  \<open>i\<close> whose type, height and width are the ones asked for; otherwise it runs to
  the end and gives the first free picture and the first destroyed picture it
  met (\<open>p_free_picture\<close>, \<open>p_destroyed_picture\<close>).
\<close>

fun CreatePicture_scan ::
  "picture_type \<Rightarrow> int \<Rightarrow> int \<Rightarrow> picture list \<Rightarrow> nat \<Rightarrow> nat option \<Rightarrow> nat option
     \<Rightarrow> nat + (nat option \<times> nat option)"
where
  "CreatePicture_scan t w h [] i p_free p_destroyed = Inr (p_free, p_destroyed)"
| "CreatePicture_scan t w h (p # ps) i p_free p_destroyed =
     (if i_status p = DESTROYED_PICTURE then
        (if i_type p = t \<and> i_height p = h \<and> i_width p = w then Inl i
         else if p_destroyed = None then CreatePicture_scan t w h ps (Suc i) p_free (Some i)
         else CreatePicture_scan t w h ps (Suc i) p_free p_destroyed)
      else if p_free = None \<and> i_status p = FREE_PICTURE then
        CreatePicture_scan t w h ps (Suc i) (Some i) p_destroyed
      else CreatePicture_scan t w h ps (Suc i) p_free p_destroyed)"

text \<open>
  A value of type \<^verbatim>\<open>int\<close> converted to \<^verbatim>\<open>size_t\<close>, and the products of
  \<^verbatim>\<open>size_t\<close>: they are taken modulo \<^verbatim>\<open>SIZE_MAX + 1\<close>.
\<close>

definition to_size :: "vout_config \<Rightarrow> int \<Rightarrow> int" where
  "to_size cfg x = x mod (SIZE_MAX cfg + 1)"

text \<open>
  The \<^verbatim>\<open>switch( i_type )\<close> that allocates the buffer: it gives the chroma width
  and the picture with its buffer and planes set. The number of samples is a
  product of \<^verbatim>\<open>int\<close>, the number of bytes one of \<^verbatim>\<open>size_t\<close>. For a type that is
  not one of the three YUV types, the buffer is set to null with \<^verbatim>\<open>DEBUG\<close> and
  left as it was without; the planes stay as they were, and the chroma width is
  the 0 that the variable was given at its declaration.
\<close>

definition CreatePicture_alloc ::
  "vout_config \<Rightarrow> picture_type \<Rightarrow> int \<Rightarrow> int \<Rightarrow> picture \<Rightarrow> allocator
     \<Rightarrow> int \<times> picture \<times> allocator"
where
  "CreatePicture_alloc cfg t w h p a =
     (case t of
        YUV_420_PICTURE \<Rightarrow>
          (let cw = c_div w 2;
               (d, a') = malloc (to_size cfg (to_size cfg (int32 (int32 (h * cw) * 3))
                                                * sizeof_yuv_data_t cfg)) a
           in (cw, p\<lparr>p_data := d, p_y := (d, 0),
                      p_u := (d, c_div (int32 (int32 (h * cw) * 4)) 2),
                      p_v := (d, c_div (int32 (int32 (h * cw) * 5)) 2)\<rparr>, a'))
      | YUV_422_PICTURE \<Rightarrow>
          (let cw = c_div w 2;
               (d, a') = malloc (to_size cfg (to_size cfg (int32 (int32 (h * cw) * 4))
                                                * sizeof_yuv_data_t cfg)) a
           in (cw, p\<lparr>p_data := d, p_y := (d, 0),
                      p_u := (d, int32 (int32 (h * cw) * 2)),
                      p_v := (d, int32 (int32 (h * cw) * 3))\<rparr>, a'))
      | YUV_444_PICTURE \<Rightarrow>
          (let cw = w;
               (d, a') = malloc (to_size cfg (to_size cfg (int32 (int32 (h * cw) * 3))
                                                * sizeof_yuv_data_t cfg)) a
           in (cw, p\<lparr>p_data := d, p_y := (d, 0),
                      p_u := (d, int32 (h * cw)),
                      p_v := (d, int32 (int32 (h * cw) * 2))\<rparr>, a'))
      | _ \<Rightarrow> (0, if DEBUG cfg then p\<lparr>p_data := None\<rparr> else p, a))"

text \<open>
  The block \<^verbatim>\<open>if( p_free_picture != NULL )\<close> of \<^verbatim>\<open>vout_CreatePicture\<close>, for the
  picture \<open>i\<close> that was chosen: the buffer is allocated, and the picture is
  either filled in and reserved, or (no buffer) set empty and free, with the
  null pointer returned.
\<close>

definition CreatePicture_prepare ::
  "vout_config \<Rightarrow> picture list \<Rightarrow> allocator \<Rightarrow> picture_type \<Rightarrow> int \<Rightarrow> int \<Rightarrow> nat
     \<Rightarrow> nat option \<times> picture list \<times> allocator"
where
  "CreatePicture_prepare cfg heap a t w h i =
     (case CreatePicture_alloc cfg t w h (heap ! i) a of
        (cw, p, a2) \<Rightarrow>
          if p_data p \<noteq> None then
            (Some i,
             heap[i := p\<lparr>i_type := t, i_status := RESERVED_PICTURE,
                         i_matrix_coefficients := 1, i_width := w, i_height := h,
                         i_chroma_width := cw,
                         i_display_horizontal_offset := 0,
                         i_display_vertical_offset := 0,
                         i_display_width := w, i_display_height := h,
                         i_aspect_ratio := AR_SQUARE_PICTURE,
                         i_refcount := 0\<rparr>],
             a2)
          else
            (None, heap[i := p\<lparr>i_type := EMPTY_PICTURE, i_status := FREE_PICTURE\<rparr>], a2))"

text \<open>
  \<^verbatim>\<open>vout_CreatePicture\<close> gives the index of the picture it returns (\<open>None\<close> for
  the null pointer), the heap and the allocator. A destroyed picture is used,
  and its buffer freed, only if the loop met no free picture.
\<close>

definition vout_CreatePicture ::
  "vout_config \<Rightarrow> picture list \<Rightarrow> allocator \<Rightarrow> picture_type \<Rightarrow> int \<Rightarrow> int
     \<Rightarrow> nat option \<times> picture list \<times> allocator"
where
  "vout_CreatePicture cfg heap a t w h =
     (case CreatePicture_scan t w h heap 0 None None of
        Inl i \<Rightarrow> (Some i, heap[i := (heap ! i)\<lparr>i_status := RESERVED_PICTURE\<rparr>], a)
      | Inr (p_free, p_destroyed) \<Rightarrow>
          (case (p_free, p_destroyed) of
             (None, Some j) \<Rightarrow>
               CreatePicture_prepare cfg heap (free (p_data (heap ! j)) a) t w h j
           | (Some i, _) \<Rightarrow> CreatePicture_prepare cfg heap a t w h i
           | (None, None) \<Rightarrow> (None, heap, a)))"

subsection \<open>The output thread and its buffers\<close>

text \<open>
  What goes wrong in the C program without a result: a division by zero, the
  division of the least \<^verbatim>\<open>int\<close> by -1, a store outside the area arrays, a store
  outside the pixel buffer.
\<close>

datatype vout_error = DivisionByZero | DivisionOverflow | AreaOverrun | BufferOverrun

text \<open>
  \<^verbatim>\<open>vout_buffer_t\<close>: the picture region, the areas to clear (\<open>i_areas\<close> of them,
  in two arrays of \<^verbatim>\<open>VOUT_MAX_AREAS\<close> rows each) and the pixel memory
  \<^verbatim>\<open>p_data\<close>, byte by byte.
\<close>

record vout_buffer =
  i_pic_x :: int
  i_pic_y :: int
  i_pic_width :: int
  i_pic_height :: int
  i_areas :: nat
  pi_area_begin :: "int list"
  pi_area_end :: "int list"
  buffer_data :: "nat list"

text \<open>
  What the thread calls outside this file or sleeps on is kept in the field
  \<open>trace\<close>.
\<close>

datatype vout_event =
    Call_SetBufferPicture "nat option"
  | Call_RenderPicture nat
  | Call_RenderPictureInfo nat
  | Call_RenderInfo
  | Call_RenderInterface
  | Call_RenderSubPictureUnit
  | Call_mwait int
  | Call_msleep int
  | Call_vout_SysDisplay
  | Call_vout_SysManage
  | Call_vout_ResetTables

text \<open>
  \<^verbatim>\<open>vout_thread_t\<close>. The fields \<^verbatim>\<open>b_error\<close>, \<^verbatim>\<open>i_width\<close> and \<^verbatim>\<open>i_height\<close> are
  called \<open>vout_b_error\<close>, \<open>vout_i_width\<close> and \<open>vout_i_height\<close>, the names without
  prefix being taken by the decoder and the pictures.
\<close>

record vout_thread =
  b_die :: bool
  vout_b_error :: bool
  b_active :: bool
  vout_i_width :: int
  vout_i_height :: int
  i_bytes_per_line :: int
  i_bytes_per_pixel :: int
  b_info :: bool
  b_interface :: bool
  b_scale :: bool
  i_changes :: "vout_change set"
  last_picture_date :: int
  i_buffer_index :: nat
  p_picture :: "picture list"
  p_buffer :: "vout_buffer list"
  render_time :: int
  c_fps_samples :: nat
  p_fps_sample :: "int list"
  trace :: "vout_event list"

subsection \<open>\<^verbatim>\<open>SetBufferPicture\<close>: the size and place of the picture\<close>

text \<open>
  A division of C by zero stops the program, and so does the one division of
  \<^verbatim>\<open>int\<close> whose quotient is out of range.
\<close>

definition c_divide :: "int \<Rightarrow> int \<Rightarrow> vout_error + int" where
  "c_divide a b =
     (if b = 0 then Inl DivisionByZero
      else if a = - 2147483648 \<and> b = - 1 then Inl DivisionOverflow
      else Inr (c_div a b))"

text \<open>
  The two \<^verbatim>\<open>switch( p_pic->i_aspect_ratio )\<close> statements: the height that goes
  with a width, and the width that goes with a height.
\<close>

definition aspect_height :: "picture \<Rightarrow> int \<Rightarrow> vout_error + int" where
  "aspect_height p_pic pic_width =
     (case i_aspect_ratio p_pic of
        AR_3_4_PICTURE \<Rightarrow> Inr (c_div (int32 (pic_width * 3)) 4)
      | AR_16_9_PICTURE \<Rightarrow> Inr (c_div (int32 (pic_width * 9)) 16)
      | AR_221_1_PICTURE \<Rightarrow> Inr (c_div (int32 (pic_width * 100)) 221)
      | _ \<Rightarrow> c_divide (int32 (i_height p_pic * pic_width)) (i_width p_pic))"

definition aspect_width :: "picture \<Rightarrow> int \<Rightarrow> vout_error + int" where
  "aspect_width p_pic pic_height =
     (case i_aspect_ratio p_pic of
        AR_3_4_PICTURE \<Rightarrow> Inr (c_div (int32 (pic_height * 4)) 3)
      | AR_16_9_PICTURE \<Rightarrow> Inr (c_div (int32 (pic_height * 16)) 9)
      | AR_221_1_PICTURE \<Rightarrow> Inr (c_div (int32 (pic_height * 221)) 100)
      | _ \<Rightarrow> c_divide (int32 (i_width p_pic * pic_height)) (i_height p_pic))"

text \<open>
  The first part of \<^verbatim>\<open>SetBufferPicture\<close>, ``computes new picture size'': it
  gives \<open>(i_pic_x, i_pic_y, i_pic_width, i_pic_height)\<close>.
\<close>

definition SetBufferPicture_size ::
  "'a vout_thread_scheme \<Rightarrow> picture option \<Rightarrow> vout_error + (int \<times> int \<times> int \<times> int)"
where
  "SetBufferPicture_size p_vout p_pic =
     (let i_vout_width = vout_i_width p_vout; i_vout_height = vout_i_height p_vout
      in case p_pic of
           None \<Rightarrow> Inr (0, 0, 0, 0)
         | Some pic \<Rightarrow>
             (let w0 = (if b_scale p_vout \<or> i_width pic > i_vout_width
                        then i_vout_width else i_width pic);
                  w1 = int32 (c_div w0 16 * 16)
              in case aspect_height pic w1 of
                   Inl e \<Rightarrow> Inl e
                 | Inr h1 \<Rightarrow>
                     if h1 > i_vout_height then
                       (let h2 = (if b_scale p_vout \<or> i_height pic > i_vout_height
                                  then i_vout_height else i_height pic)
                        in case aspect_width pic h2 of
                             Inl e \<Rightarrow> Inl e
                           | Inr w2 \<Rightarrow>
                               (let w3 = int32 (c_div w2 16 * 16)
                                in Inr (c_div (int32 (vout_i_width p_vout - w3)) 2,
                                        c_div (int32 (vout_i_height p_vout - h2)) 2, w3, h2)))
                     else
                       Inr (c_div (int32 (vout_i_width p_vout - w1)) 2,
                            c_div (int32 (vout_i_height p_vout - h1)) 2, w1, h1)))"


subsection \<open>\<^verbatim>\<open>SetBufferArea\<close>: the areas to clear\<close>

text \<open>
  The two arrays of a buffer have \<^verbatim>\<open>VOUT_MAX_AREAS\<close> rows. A load or store at an
  index outside an array is the error \<open>AreaOverrun\<close>.

  \<open>SetBufferArea_skip\<close> is the loop that finds the place of the new area,
  \<^verbatim>\<open>for( i_area = 0; (i_area < i_areas) && (pi_area_end[i_area] + 1 <= i_y); i_area++ )\<close>,
  started at \<open>i_area\<close>.
\<close>

function SetBufferArea_skip :: "vout_buffer \<Rightarrow> int \<Rightarrow> nat \<Rightarrow> vout_error + nat" where
  "SetBufferArea_skip b y i_area =
     (if i_area < i_areas b then
        (if i_area < length (pi_area_end b) then
           (if int32 (pi_area_end b ! i_area + 1) \<le> y then SetBufferArea_skip b y (Suc i_area)
            else Inr i_area)
         else Inl AreaOverrun)
      else Inr i_area)"
  by pat_completeness auto
termination
  by (relation "measure (\<lambda>(b, y, i_area). i_areas b - i_area)") auto

declare SetBufferArea_skip.simps [simp del]

text \<open>
  The loop that moves the areas from \<open>i_area\<close> on one row down to make room,
  as it is written:
  \<^verbatim>\<open>for( i_area_copy = i_areas - 1; i_area_copy > i_area; i_area_copy++ )\<close>.
  The index goes up, so the loop, once entered, ends with a store outside the
  arrays.
\<close>

function SetBufferArea_move_down :: "vout_buffer \<Rightarrow> nat \<Rightarrow> nat \<Rightarrow> vout_error + vout_buffer" where
  "SetBufferArea_move_down b i_area i_area_copy =
     (if i_area_copy > i_area then
        (if i_area_copy < length (pi_area_begin b) \<and> i_area_copy < length (pi_area_end b) then
           SetBufferArea_move_down
             (b\<lparr>pi_area_begin := (pi_area_begin b)[i_area_copy := pi_area_begin b ! (i_area_copy - 1)],
                pi_area_end := (pi_area_end b)[i_area_copy := pi_area_end b ! (i_area_copy - 1)]\<rparr>)
             i_area (Suc i_area_copy)
         else Inl AreaOverrun)
      else Inr b)"
  by pat_completeness auto
termination
  by (relation "measure (\<lambda>(b, i_area, i_area_copy). length (pi_area_begin b) - i_area_copy)") auto

declare SetBufferArea_move_down.simps [simp del]

text \<open>
  The loop that looks for the areas to merge with area \<open>i_area\<close>,
  \<^verbatim>\<open>for( i_area_copy = i_area + 1; (i_area_copy < i_areas) && (pi_area_begin[i_area] <= i_h); i_area_copy++ )\<close>.
  The test reads the begin of area \<open>i_area\<close>, not of area \<open>i_area_copy\<close>.
\<close>

function SetBufferArea_merge_scan :: "vout_buffer \<Rightarrow> nat \<Rightarrow> int \<Rightarrow> nat \<Rightarrow> nat" where
  "SetBufferArea_merge_scan b i_area i_h i_area_copy =
     (if i_area_copy < i_areas b \<and> pi_area_begin b ! i_area \<le> i_h
      then SetBufferArea_merge_scan b i_area i_h (Suc i_area_copy)
      else i_area_copy)"
  by pat_completeness auto
termination
  by (relation "measure (\<lambda>(b, i_area, i_h, i_area_copy). i_areas b - i_area_copy)") auto

declare SetBufferArea_merge_scan.simps [simp del]

text \<open>
  The loop that shifts the lower areas upward after a merge,
  \<^verbatim>\<open>for( i_area_copy = i_area + 1; i_area_copy < i_areas; i_area_copy++ )\<close>.
\<close>

function SetBufferArea_shift_up :: "vout_buffer \<Rightarrow> nat \<Rightarrow> nat \<Rightarrow> vout_error + vout_buffer" where
  "SetBufferArea_shift_up b i_area_shift i_area_copy =
     (if i_area_copy < i_areas b then
        (if i_area_copy + i_area_shift < length (pi_area_begin b)
            \<and> i_area_copy + i_area_shift < length (pi_area_end b) then
           SetBufferArea_shift_up
             (b\<lparr>pi_area_begin :=
                   (pi_area_begin b)[i_area_copy := pi_area_begin b ! (i_area_copy + i_area_shift)],
                pi_area_end :=
                   (pi_area_end b)[i_area_copy := pi_area_end b ! (i_area_copy + i_area_shift)]\<rparr>)
             i_area_shift (Suc i_area_copy)
         else Inl AreaOverrun)
      else Inr b)"
  by pat_completeness auto
termination
  by (relation "measure (\<lambda>(b, i_area_shift, i_area_copy). i_areas b - i_area_copy)") auto

declare SetBufferArea_shift_up.simps [simp del]

text \<open>
  The statement \<^verbatim>\<open>if( i_h > i_area_end )\<close> at the end of \<^verbatim>\<open>SetBufferArea\<close>:
  the area \<open>i_area\<close> is extended below, or merged with the areas that follow.
\<close>

definition SetBufferArea_extend_below ::
  "vout_buffer \<Rightarrow> nat \<Rightarrow> int \<Rightarrow> int \<Rightarrow> vout_error + vout_buffer"
where
  "SetBufferArea_extend_below b i_area i_area_end i_h =
     (if i_h > i_area_end then
        (let i_area_copy = SetBufferArea_merge_scan b i_area i_h (i_area + 1) - 1
         in if i_area_copy \<noteq> i_area then
              (if i_area_copy < length (pi_area_end b) then
                 (let b1 = b\<lparr>pi_area_end :=
                               (pi_area_end b)[i_area := max i_h (pi_area_end b ! i_area_copy)]\<rparr>;
                      i_area_shift = i_area_copy - i_area;
                      b2 = b1\<lparr>i_areas := i_areas b1 - i_area_shift\<rparr>
                  in SetBufferArea_shift_up b2 i_area_shift (i_area + 1))
               else Inl AreaOverrun)
            else Inr (b\<lparr>pi_area_end := (pi_area_end b)[i_area := i_h]\<rparr>))
      else Inr b)"

text \<open>
  The second half of \<^verbatim>\<open>SetBufferArea\<close>, from the loop that finds the place on:
  the area from row \<open>i_y\<close> to row \<open>i_h\<close> is put into the arrays.
\<close>

definition SetBufferArea_insert ::
  "vout_config \<Rightarrow> vout_buffer \<Rightarrow> int \<Rightarrow> int \<Rightarrow> vout_error + vout_buffer"
where
  "SetBufferArea_insert cfg b i_y i_h =
     (case SetBufferArea_skip b i_y 0 of
        Inl e \<Rightarrow> Inl e
      | Inr i_area \<Rightarrow>
          if i_area = i_areas b then
            (if i_area < VOUT_MAX_AREAS cfg then
               (if i_area < length (pi_area_begin b) \<and> i_area < length (pi_area_end b) then
                  Inr (b\<lparr>pi_area_begin := (pi_area_begin b)[i_area := i_y],
                         pi_area_end := (pi_area_end b)[i_area := i_h],
                         i_areas := i_areas b + 1\<rparr>)
                else Inl AreaOverrun)
             else
               (if 1 \<le> VOUT_MAX_AREAS cfg \<and> VOUT_MAX_AREAS cfg - 1 < length (pi_area_end b) then
                  Inr (b\<lparr>pi_area_end := (pi_area_end b)[VOUT_MAX_AREAS cfg - 1 := i_h]\<rparr>)
                else Inl AreaOverrun))
          else if i_area < length (pi_area_begin b) \<and> i_area < length (pi_area_end b) then
            (let i_area_begin = pi_area_begin b ! i_area;
                 i_area_end = pi_area_end b ! i_area
             in if i_y < i_area_begin then
                  (if i_h \<ge> int32 (i_area_begin - 1) then
                     SetBufferArea_extend_below
                       (b\<lparr>pi_area_begin := (pi_area_begin b)[i_area := i_y]\<rparr>) i_area i_area_end i_h
                   else
                     (case
                        (if i_areas b = VOUT_MAX_AREAS cfg then
                           (if 2 \<le> VOUT_MAX_AREAS cfg
                               \<and> VOUT_MAX_AREAS cfg - 1 < length (pi_area_end b) then
                              Inr (b\<lparr>pi_area_end :=
                                        (pi_area_end b)[VOUT_MAX_AREAS cfg - 2 :=
                                           pi_area_end b ! (VOUT_MAX_AREAS cfg - 1)]\<rparr>)
                            else Inl AreaOverrun)
                         else Inr (b\<lparr>i_areas := i_areas b + 1\<rparr>))
                      of
                        Inl e \<Rightarrow> Inl e
                      | Inr b1 \<Rightarrow>
                          (case SetBufferArea_move_down b1 i_area (i_areas b1 - 1) of
                             Inl e \<Rightarrow> Inl e
                           | Inr b2 \<Rightarrow>
                               Inr (b2\<lparr>pi_area_begin := (pi_area_begin b2)[i_area := i_y],
                                       pi_area_end := (pi_area_end b2)[i_area := i_h]\<rparr>))))
                else SetBufferArea_extend_below b i_area i_area_end i_h)
          else Inl AreaOverrun)"

text \<open>
  \<^verbatim>\<open>SetBufferArea\<close> on the current buffer. The part of the rectangle inside
  the picture region is taken out by two calls of the function itself, for the
  stripe above and the stripe below the picture. The function calls itself
  without end when the picture height is negative; \<open>None\<close> is a call that does
  not return.
\<close>

partial_function (option) SetBufferArea ::
  "vout_config \<Rightarrow> vout_buffer \<Rightarrow> int \<Rightarrow> int \<Rightarrow> int \<Rightarrow> int \<Rightarrow> (vout_error + vout_buffer) option"
where
  "SetBufferArea cfg b i_x i_y i_w i_h0 =
     (let i_h = int32 (i_h0 + int32 (i_y - 1));
          i_area_begin = i_pic_y b;
          i_area_end = int32 (int32 (i_area_begin + i_pic_height b) - 1)
      in if i_x \<ge> i_pic_x b \<and> int32 (i_x + i_w) \<le> int32 (i_pic_x b + i_pic_width b)
            \<and> ((i_y \<ge> i_area_begin \<and> i_y \<le> i_area_end)
               \<or> (i_h \<ge> i_area_begin \<and> i_h \<le> i_area_end)
               \<or> (i_y < i_area_begin \<and> i_h > i_area_end))
         then
           Option.bind
             (if i_y < i_area_begin
              then SetBufferArea cfg b i_x i_y i_w (int32 (i_area_begin - i_y))
              else Some (Inr b))
             (\<lambda>r. case r of
                    Inl e \<Rightarrow> Some (Inl e)
                  | Inr b1 \<Rightarrow>
                      if i_h > i_area_end
                      then SetBufferArea cfg b1 i_x i_area_end i_w (int32 (i_h - i_area_end))
                      else Some (Inr b1))
         else Some (SetBufferArea_insert cfg b i_y i_h))"

declare SetBufferArea.simps [code]


subsection \<open>\<^verbatim>\<open>SetBufferPicture\<close>: clearing the areas\<close>

text \<open>The remainder of C has the sign of the dividend.\<close>

definition c_mod :: "int \<Rightarrow> int \<Rightarrow> int" where
  "c_mod a b = a - c_div a b * b"

text \<open>
  \<open>zero_u64s n p d\<close> is \<open>n\<close> times the statement \<^verbatim>\<open>*p_data++ = 0\<close> on a pointer
  to 64-bit words: eight bytes of the pixel memory \<open>d\<close> are set to zero at the
  byte offset \<open>p\<close>, which then moves on by eight. A store outside the memory is
  the error \<open>BufferOverrun\<close>.
\<close>

fun zero_u64s :: "nat \<Rightarrow> int \<Rightarrow> nat list \<Rightarrow> vout_error + nat list" where
  "zero_u64s 0 p d = Inr d"
| "zero_u64s (Suc n) p d =
     (if 0 \<le> p \<and> nat p + 8 \<le> length d
      then zero_u64s n (p + 8) (take (nat p) d @ replicate 8 0 @ drop (nat p + 8) d)
      else Inl BufferOverrun)"

text \<open>
  The body of the loop ``clear areas'' for one area: a first loop over the
  blocks of 256 bytes, with 32 stores each, and a second loop that runs once for
  every 4 bytes that remain and stores a 64-bit word each time.
\<close>

definition clear_area :: "int \<Rightarrow> nat list \<Rightarrow> int \<Rightarrow> int \<Rightarrow> vout_error + nat list" where
  "clear_area bytes_per_line d area_begin area_end =
     (let n = int32 (int32 (int32 (area_end - area_begin) + 1) * bytes_per_line);
          n1 = nat (c_div n 256);
          n2 = nat (c_div (c_mod n 256) 4);
          p = int32 (bytes_per_line * area_begin)
      in case zero_u64s (32 * n1) p d of
           Inl e \<Rightarrow> Inl e
         | Inr d1 \<Rightarrow> zero_u64s n2 (p + 256 * int n1) d1)"

function SetBufferPicture_clear :: "int \<Rightarrow> vout_buffer \<Rightarrow> nat \<Rightarrow> vout_error + vout_buffer" where
  "SetBufferPicture_clear bytes_per_line b i_area =
     (if i_area < i_areas b then
        (if i_area < length (pi_area_begin b) \<and> i_area < length (pi_area_end b) then
           (case clear_area bytes_per_line (buffer_data b)
                   (pi_area_begin b ! i_area) (pi_area_end b ! i_area) of
              Inl e \<Rightarrow> Inl e
            | Inr d \<Rightarrow> SetBufferPicture_clear bytes_per_line (b\<lparr>buffer_data := d\<rparr>) (Suc i_area))
         else Inl AreaOverrun)
      else Inr b)"
  by pat_completeness auto
termination
  by (relation "measure (\<lambda>(bytes_per_line, b, i_area). i_areas b - i_area)") auto

declare SetBufferPicture_clear.simps [simp del]


subsection \<open>\<^verbatim>\<open>RunThread\<close>: one turn of the main loop\<close>










text \<open>
  A notion for stating when a wait returns: the owner as the other threads
  have left it at the \<open>n\<close>-th wake-up.
\<close>

definition woken ::
  "('a decoder_scheme \<Rightarrow> 'a decoder_scheme) list \<Rightarrow> nat \<Rightarrow> 'a decoder_scheme \<Rightarrow> 'a decoder_scheme"
where
  "woken env n d = fold (\<lambda>e s. e s) (take n env) d"

text \<open>
  Notions for stating what \<^verbatim>\<open>SetBufferArea\<close> keeps. A coordinate is an
  \<^verbatim>\<open>int\<close> below 1073741824 in absolute value, so that the sum and the difference
  of two coordinates are in the range of \<^verbatim>\<open>int\<close>. The areas in use are sorted
  when the arrays have their \<^verbatim>\<open>VOUT_MAX_AREAS\<close> rows, at most that many areas are
  in use, no area is empty, and each area ends before the next begins; they are
  well formed when they are sorted and their rows are coordinates. A row is
  covered when it lies in an area in use.
\<close>

definition coordinate :: "int \<Rightarrow> bool" where
  "coordinate x \<longleftrightarrow> - 1073741824 \<le> x \<and> x < 1073741824"






text \<open>
  Two notions for stating what \<^verbatim>\<open>vout_CreatePicture\<close> does: the first index of
  a list at which a predicate holds, and the destroyed pictures whose type,
  width and height are the ones asked for.
\<close>

fun first_index :: "('a \<Rightarrow> bool) \<Rightarrow> 'a list \<Rightarrow> nat option" where
  "first_index P [] = None"
| "first_index P (x # xs) = (if P x then Some 0 else map_option Suc (first_index P xs))"

definition matching_destroyed :: "picture_type \<Rightarrow> int \<Rightarrow> int \<Rightarrow> picture \<Rightarrow> bool" where
  "matching_destroyed t w h p \<longleftrightarrow>
     i_status p = DESTROYED_PICTURE \<and> i_type p = t \<and> i_height p = h \<and> i_width p = w"


section \<open>Example states\<close>

text \<open>Concrete blocks, owners and clocks on which the theorems below are instantiated.\<close>

definition ex_block :: block where
  "ex_block = \<lparr>i_flags = {}, i_buffer = 188, i_dts = 1000, i_pts = 1000\<rparr>"

definition ex_empty_block :: block where
  "ex_empty_block = \<lparr>i_flags = {BLOCK_FLAG_DISCONTINUITY}, i_buffer = 0, i_dts = 0, i_pts = 0\<rparr>"

definition ex_owner :: decoder where
  "ex_owner =
     \<lparr>b_error = False, fmt_out_cat = VIDEO_ES, i_preroll_end = 0, b_packetizer = False,
      fifo = [], b_paused = False, b_waiting = False, b_first = False, b_has_data = False,
      b_flushing = False, b_draining = True, b_drained = False, b_idle = False,
      cc = \<lparr>b_supported = True, pb_present = [False, False, True, False],
             pp_decoder = [None, None, Some 7, None]\<rparr>,
      i_ts_delay = 0,
      stats = \<lparr>p_decoded_video = 0, p_lost_pictures = 0, p_displayed_pictures = 0,
                p_decoded_audio = 0, p_lost_abuffers = 0, p_played_abuffers = 0,
                p_decoded_sub = 0\<rparr>,
      released = [], signals = []\<rparr>"

text \<open>The worker takes the head of the FIFO.\<close>

definition ex_worker_dequeue :: "decoder \<Rightarrow> decoder" where
  "ex_worker_dequeue d = d\<lparr>fifo := tl (fifo d)\<rparr>"

definition ex_ops :: "unit process_ops" where
  "ex_ops =
     \<lparr>DecoderProcessSout = (\<lambda>b d. d\<lparr>b_error := True\<rparr>),
      DecoderProcessAudio = (\<lambda>b f d. d\<lparr>b_error := True\<rparr>),
      DecoderProcessVideo = (\<lambda>b f d. d\<lparr>b_error := True, i_preroll_end := 5\<rparr>),
      DecoderProcessSpu = (\<lambda>b f d. d\<lparr>b_error := True\<rparr>)\<rparr>"




definition ex_cfg :: vout_config where
  "ex_cfg =
     \<lparr>VOUT_MAX_AREAS = 5, VOUT_DISPLAY_DELAY = 150000, VOUT_IDLE_SLEEP = 50000,
      VOUT_FPS_SAMPLES = 20, VOUT_NODISPLAY_CHANGE = {VOUT_OTHER_CHANGE 0},
      sizeof_yuv_data_t = 1, SIZE_MAX = 4294967295,
      DEBUG = False, DEBUG_VIDEO = False, STATS = False\<rparr>"

definition ex_picture :: picture where
  "ex_picture =
     \<lparr>i_type = YUV_420_PICTURE, i_status = DESTROYED_PICTURE, i_matrix_coefficients = 1,
      i_width = 640, i_height = 480, i_chroma_width = 320,
      i_display_horizontal_offset = 0, i_display_vertical_offset = 0,
      i_display_width = 640, i_display_height = 480,
      i_aspect_ratio = AR_SQUARE_PICTURE, i_refcount = 0, date = 9000,
      p_data = Some 5, p_y = (Some 5, 0), p_u = (Some 5, 307200), p_v = (Some 5, 384000)\<rparr>"

definition ex_free_picture :: picture where
  "ex_free_picture = ex_picture\<lparr>i_type := EMPTY_PICTURE, i_status := FREE_PICTURE, p_data := None\<rparr>"

definition ex_allocator :: allocator where
  "ex_allocator = \<lparr>avail = [100, 101], malloc_log = [], free_log = []\<rparr>"


definition ex_buffer :: vout_buffer where
  "ex_buffer =
     \<lparr>i_pic_x = 0, i_pic_y = 0, i_pic_width = 0, i_pic_height = 0,
      i_areas = 0, pi_area_begin = [0, 0, 0, 0, 0], pi_area_end = [0, 0, 0, 0, 0],
      buffer_data = []\<rparr>"

definition ex_vout :: vout_thread where
  "ex_vout =
     \<lparr>b_die = False, vout_b_error = False, b_active = True,
      vout_i_width = 640, vout_i_height = 480,
      i_bytes_per_line = 1280, i_bytes_per_pixel = 2,
      b_info = False, b_interface = False, b_scale = False, i_changes = {},
      last_picture_date = 0, i_buffer_index = 0,
      p_picture = [], p_buffer = [ex_buffer, ex_buffer],
      render_time = 0, c_fps_samples = 0, p_fps_sample = [], trace = []\<rparr>"







section \<open>Machine arithmetic\<close>

lemma c_div_nonneg: "0 \<le> a \<Longrightarrow> 0 < b \<Longrightarrow> c_div a b = a div b"
  by (simp add: c_div_def sgn_if)

lemma int32_id: "- 2147483648 \<le> x \<Longrightarrow> x \<le> 2147483647 \<Longrightarrow> int32 x = x"
  by (simp add: int32_def)








section \<open>Closed-caption state query\<close>

text \<open>
  C9. For a channel \<open>0 \<le> channel < 4\<close> that is marked present,
  \<^verbatim>\<open>input_DecoderGetCcState\<close> stores into \<^verbatim>\<open>*pb_decode\<close> whether the
  sub-decoder of that channel exists, and the code it returns on this path is
  \<^verbatim>\<open>VLC_EGENERIC\<close>, not \<^verbatim>\<open>VLC_SUCCESS\<close>.
\<close>

theorem GetCcState_present_returns_EGENERIC:
  assumes "0 \<le> i_channel" and "i_channel < 4"
    and "pb_present ccs ! nat i_channel"
  shows "snd (input_DecoderGetCcState ccs i_channel) = (pp_decoder ccs ! nat i_channel \<noteq> None)
       \<and> fst (input_DecoderGetCcState ccs i_channel) = VLC_EGENERIC
       \<and> fst (input_DecoderGetCcState ccs i_channel) \<noteq> VLC_SUCCESS"
  using assms by (simp add: input_DecoderGetCcState_def)

text \<open>
  On the example owner, channel 2 is present and has a decoder: the flag is
  set and the status is \<^verbatim>\<open>VLC_EGENERIC\<close>.
\<close>

theorem GetCcState_present_witness:
  "(0::int) \<le> 2 \<and> (2::int) < 4
   \<and> pb_present (cc ex_owner) ! nat 2
   \<and> snd (input_DecoderGetCcState (cc ex_owner) 2) = True
   \<and> fst (input_DecoderGetCcState (cc ex_owner) 2) = VLC_EGENERIC"
  using GetCcState_present_returns_EGENERIC [of 2 "cc ex_owner"]
  by (simp add: ex_owner_def)

section \<open>Pacing of the block FIFO\<close>

lemma pace_wait_count: "pace_wait env d = Some d' \<Longrightarrow> vlc_fifo_GetCount d' < 10"
  by (induction env arbitrary: d) (auto split: if_splits)

lemma woken_0: "woken env 0 d = d"
  by (simp add: woken_def)

lemma woken_Suc: "woken (e # es) (Suc n) d = woken es n (e d)"
  by (simp add: woken_def)

text \<open>The loop returns at the first wake-up that finds fewer than ten blocks.\<close>

lemma pace_wait_returns:
  assumes "n \<le> length env"
    and "\<forall>m<n. 10 \<le> vlc_fifo_GetCount (woken env m d)"
    and "vlc_fifo_GetCount (woken env n d) < 10"
  shows "pace_wait env d = Some (woken env n d)"
  using assms
proof (induction env arbitrary: d n)
  case Nil
  then show ?case by (simp add: woken_def)
next
  case (Cons e es)
  show ?case
  proof (cases n)
    case 0
    with Cons.prems(3) show ?thesis by (simp add: woken_0)
  next
    case (Suc k)
    from Cons.prems(2) [rule_format, of 0] Suc have full: "10 \<le> vlc_fifo_GetCount d"
      by (simp add: woken_0)
    have before: "\<forall>m<k. 10 \<le> vlc_fifo_GetCount (woken es m (e d))"
    proof (intro allI impI)
      fix m assume "m < k"
      with Cons.prems(2) [rule_format, of "Suc m"] Suc
      show "10 \<le> vlc_fifo_GetCount (woken es m (e d))" by (simp add: woken_Suc)
    qed
    from Cons.prems(1) Suc have len: "k \<le> length es" by simp
    from Cons.prems(3) Suc have at: "vlc_fifo_GetCount (woken es k (e d)) < 10"
      by (simp add: woken_Suc)
    from Cons.IH [OF len before at] full Suc show ?thesis by (simp add: woken_Suc)
  qed
qed

text \<open>It does not return while every wake-up finds ten blocks or more.\<close>

lemma pace_wait_blocks:
  assumes "\<forall>m\<le>length env. 10 \<le> vlc_fifo_GetCount (woken env m d)"
  shows "pace_wait env d = None"
  using assms
proof (induction env arbitrary: d)
  case Nil
  then show ?case by (simp add: woken_def)
next
  case (Cons e es)
  from Cons.prems [rule_format, of 0] have full: "10 \<le> vlc_fifo_GetCount d"
    by (simp add: woken_0)
  have "\<forall>m\<le>length es. 10 \<le> vlc_fifo_GetCount (woken es m (e d))"
  proof (intro allI impI)
    fix m assume "m \<le> length es"
    with Cons.prems [rule_format, of "Suc m"]
    show "10 \<le> vlc_fifo_GetCount (woken es m (e d))" by (simp add: woken_Suc)
  qed
  then have "pace_wait es (e d) = None" by (rule Cons.IH)
  with full show ?case by simp
qed

text \<open>
  C1, as the code has it. The other threads are the list \<open>env\<close>: its \<open>n\<close>-th
  element is what they do to the owner before the \<open>n\<close>-th wake-up of the caller.

  A paced call of \<^verbatim>\<open>input_DecoderDecode\<close> on an owner that is not in the waiting
  state returns at the first wake-up that finds fewer than ten blocks in the
  FIFO (at once, when there are fewer than ten on entry), and queues the block
  on the FIFO as it is then; it does not return as long as every wake-up finds
  ten blocks or more. So the FIFO holds at most ten blocks when the call
  returns, the new block last.

  On an owner in the waiting state the paced call does not wait: it queues the
  block at once, whatever the FIFO holds.
\<close>

theorem DecoderDecode_paced_bound:
  "(\<not> b_waiting d \<longrightarrow>
      (\<forall>n\<le>length env.
          (\<forall>m<n. 10 \<le> vlc_fifo_GetCount (woken env m d))
          \<and> vlc_fifo_GetCount (woken env n d) < 10 \<longrightarrow>
          input_DecoderDecode env d p_block True =
            Some (vlc_fifo_QueueUnlocked p_block (woken env n d)))
    \<and> ((\<forall>m\<le>length env. 10 \<le> vlc_fifo_GetCount (woken env m d)) \<longrightarrow>
          input_DecoderDecode env d p_block True = None)
    \<and> (\<forall>d'. input_DecoderDecode env d p_block True = Some d' \<longrightarrow>
          vlc_fifo_GetCount d' \<le> 10 \<and> fifo d' \<noteq> [] \<and> last (fifo d') = p_block))
   \<and> (b_waiting d \<longrightarrow>
        input_DecoderDecode env d p_block True = Some (vlc_fifo_QueueUnlocked p_block d))"
proof -
  have a: "input_DecoderDecode env d p_block True =
            Some (vlc_fifo_QueueUnlocked p_block (woken env n d))"
    if "\<not> b_waiting d" and "n \<le> length env"
      and "(\<forall>m<n. 10 \<le> vlc_fifo_GetCount (woken env m d))
          \<and> vlc_fifo_GetCount (woken env n d) < 10" for n
    using that pace_wait_returns [of n env d] by (simp add: input_DecoderDecode_def)
  have b: "input_DecoderDecode env d p_block True = None"
    if "\<not> b_waiting d" and "\<forall>m\<le>length env. 10 \<le> vlc_fifo_GetCount (woken env m d)"
    using that pace_wait_blocks [of env d] by (simp add: input_DecoderDecode_def)
  have c: "vlc_fifo_GetCount d' \<le> 10 \<and> fifo d' \<noteq> [] \<and> last (fifo d') = p_block"
    if w: "\<not> b_waiting d" and h: "input_DecoderDecode env d p_block True = Some d'" for d'
  proof -
    from h w obtain d1 where p: "pace_wait env d = Some d1"
      and e: "d' = vlc_fifo_QueueUnlocked p_block d1"
      by (auto simp: input_DecoderDecode_def)
    from pace_wait_count [OF p] e show ?thesis
      by (simp add: vlc_fifo_GetCount_def vlc_fifo_QueueUnlocked_def vlc_cond_signal_def)
  qed
  have w: "b_waiting d \<longrightarrow>
        input_DecoderDecode env d p_block True = Some (vlc_fifo_QueueUnlocked p_block d)"
    by (simp add: input_DecoderDecode_def)
  from a b c w show ?thesis by blast
qed

text \<open>
  Ten blocks are queued and the owner is not waiting. With nobody to take a
  block the call does not return; with a worker that takes one block at the
  first wake-up, the call returns after that wake-up with ten blocks queued.
  On the waiting owner with ten blocks the call returns at once.
\<close>

theorem DecoderDecode_paced_bound_witness:
  "\<not> b_waiting (ex_owner\<lparr>fifo := replicate 10 ex_block\<rparr>)
   \<and> 10 \<le> vlc_fifo_GetCount (woken [ex_worker_dequeue] 0 (ex_owner\<lparr>fifo := replicate 10 ex_block\<rparr>))
   \<and> vlc_fifo_GetCount (woken [ex_worker_dequeue] 1 (ex_owner\<lparr>fifo := replicate 10 ex_block\<rparr>)) < 10
   \<and> input_DecoderDecode [ex_worker_dequeue] (ex_owner\<lparr>fifo := replicate 10 ex_block\<rparr>)
        ex_block True
       = Some (vlc_fifo_QueueUnlocked ex_block (ex_owner\<lparr>fifo := replicate 9 ex_block\<rparr>))
   \<and> input_DecoderDecode [] (ex_owner\<lparr>fifo := replicate 10 ex_block\<rparr>) ex_block True = None
   \<and> b_waiting (ex_owner\<lparr>fifo := replicate 10 ex_block, b_waiting := True\<rparr>)
   \<and> input_DecoderDecode [] (ex_owner\<lparr>fifo := replicate 10 ex_block, b_waiting := True\<rparr>)
        ex_block True
       = Some (vlc_fifo_QueueUnlocked ex_block
                 (ex_owner\<lparr>fifo := replicate 10 ex_block, b_waiting := True\<rparr>))"
proof -
  let ?d = "ex_owner\<lparr>fifo := replicate 10 ex_block\<rparr>"
  let ?w = "ex_owner\<lparr>fifo := replicate 10 ex_block, b_waiting := True\<rparr>"
  have n: "\<not> b_waiting ?d" "b_waiting ?w" by (simp_all add: ex_owner_def)
  have w0: "woken [ex_worker_dequeue] 0 ?d = ?d" "woken [] 0 ?d = ?d" by (simp_all add: woken_def)
  have w1: "woken [ex_worker_dequeue] (Suc 0) ?d = ex_owner\<lparr>fifo := replicate 9 ex_block\<rparr>"
    by (simp add: woken_def ex_worker_dequeue_def ex_owner_def numeral_eq_Suc)
  have c: "vlc_fifo_GetCount ?d = 10" "vlc_fifo_GetCount (ex_owner\<lparr>fifo := replicate 9 ex_block\<rparr>) = 9"
    by (simp_all add: vlc_fifo_GetCount_def)
  note t = DecoderDecode_paced_bound [where d = ?d and env = "[ex_worker_dequeue]"
      and p_block = ex_block, THEN conjunct1, rule_format, OF n(1)]
  have r1: "input_DecoderDecode [ex_worker_dequeue] ?d ex_block True
       = Some (vlc_fifo_QueueUnlocked ex_block (ex_owner\<lparr>fifo := replicate 9 ex_block\<rparr>))"
    using t [THEN conjunct1, rule_format, of 1] by (simp add: w0 w1 c)
  note u = DecoderDecode_paced_bound [where d = ?d and env = "[]"
      and p_block = ex_block, THEN conjunct1, rule_format, OF n(1)]
  have r2: "input_DecoderDecode [] ?d ex_block True = None"
    using u [THEN conjunct2, THEN conjunct1] by (simp add: w0 c)
  have r3: "input_DecoderDecode [] ?w ex_block True = Some (vlc_fifo_QueueUnlocked ex_block ?w)"
    using DecoderDecode_paced_bound [where d = ?w and env = "[]" and p_block = ex_block,
        THEN conjunct2, rule_format, OF n(2)] .
  from n r1 r2 r3 show ?thesis by (simp add: w0 w1 c)
qed

text \<open>
  The claim as stated fails while the owner is in the waiting state: the paced
  call does not block, and an eleventh block is queued.
\<close>

theorem DecoderDecode_paced_waiting_counterexample:
  "map_option vlc_fifo_GetCount
     (input_DecoderDecode [] (ex_owner\<lparr>fifo := replicate 10 ex_block, b_waiting := True\<rparr>)
        ex_block True) = Some 11"
  by (simp add: ex_owner_def input_DecoderDecode_def vlc_fifo_GetCount_def
      vlc_fifo_QueueUnlocked_def vlc_cond_signal_def)

section \<open>Flushing the decoder\<close>







section \<open>Blocks without payload\<close>

text \<open>
  C10. For a block whose buffer size is \<open>\<le> 0\<close> and which does not carry the
  core-flush flag, \<^verbatim>\<open>DecoderProcess\<close> releases the block and returns. The
  result does not depend on the processing functions (packetiser, codec and
  sinks are not called), and the decoder is otherwise as before: the preroll
  boundary, every flag of the owner and every counter are unchanged.
\<close>

theorem DecoderProcess_empty_block:
  assumes "i_buffer b \<le> 0" and "BLOCK_FLAG_CORE_FLUSH \<notin> i_flags b"
  shows "DecoderProcess enable_sout ops (Some b) d = Inr (d\<lparr>released := released d @ [b]\<rparr>)"
  using assms
  by (simp add: DecoderProcess_def DecoderProcess_flush_def block_Release_def)

text \<open>
  On the example owner, with stream output enabled, the block without payload
  is released and nothing else changes.
\<close>

theorem DecoderProcess_empty_block_witness:
  "i_buffer ex_empty_block \<le> 0 \<and> BLOCK_FLAG_CORE_FLUSH \<notin> i_flags ex_empty_block
   \<and> DecoderProcess True ex_ops (Some ex_empty_block) ex_owner
       = Inr (ex_owner\<lparr>released := [ex_empty_block]\<rparr>)"
  using DecoderProcess_empty_block [of ex_empty_block True ex_ops ex_owner]
  by (simp add: ex_empty_block_def ex_owner_def)

section \<open>Timestamp conversion\<close>





section \<open>The picture heap\<close>

lemma first_index_None: "first_index P xs = None \<longleftrightarrow> (\<forall>j<length xs. \<not> P (xs ! j))"
  by (induction xs) (auto simp: less_Suc_eq_0_disj)

lemma first_index_Some:
  "first_index P xs = Some k \<longleftrightarrow> k < length xs \<and> P (xs ! k) \<and> (\<forall>j<k. \<not> P (xs ! j))"
proof (induction xs arbitrary: k)
  case Nil
  then show ?case by simp
next
  case (Cons x xs)
  show ?case
  proof (cases "P x")
    case True
    then show ?thesis by (cases k) auto
  next
    case False
    then show ?thesis
      using Cons.IH by (cases k) (auto simp: less_Suc_eq_0_disj)
  qed
qed

text \<open>What the loop of \<^verbatim>\<open>vout_CreatePicture\<close> computes, started at index \<open>i\<close>.\<close>

lemma CreatePicture_scan_eq:
  "CreatePicture_scan t w h ps i pf pd =
     (case first_index (matching_destroyed t w h) ps of
        Some k \<Rightarrow> Inl (i + k)
      | None \<Rightarrow>
          Inr (case pf of Some f \<Rightarrow> Some f
                 | None \<Rightarrow> map_option ((+) i) (first_index (\<lambda>p. i_status p = FREE_PICTURE) ps),
               case pd of Some f \<Rightarrow> Some f
                 | None \<Rightarrow>
                     map_option ((+) i) (first_index (\<lambda>p. i_status p = DESTROYED_PICTURE) ps)))"
proof (induction ps arbitrary: i pf pd)
  case Nil
  then show ?case by (simp split: option.splits)
next
  case (Cons p ps)
  have e: "(+) (Suc j) = (\<lambda>x. Suc (j + x))" for j :: nat by (rule ext) simp
  show ?case
    by (simp add: Cons.IH matching_destroyed_def option.map_comp comp_def e split: option.splits)
qed

lemma CreatePicture_match:
  assumes "k < length heap" and "matching_destroyed t w h (heap ! k)"
    and "\<forall>j<k. \<not> matching_destroyed t w h (heap ! j)"
  shows "vout_CreatePicture cfg heap a t w h =
           (Some k, heap[k := (heap ! k)\<lparr>i_status := RESERVED_PICTURE\<rparr>], a)"
proof -
  from assms have "first_index (matching_destroyed t w h) heap = Some k"
    by (simp add: first_index_Some)
  then show ?thesis by (simp add: vout_CreatePicture_def CreatePicture_scan_eq)
qed

lemma CreatePicture_free:
  assumes "\<forall>j<length heap. \<not> matching_destroyed t w h (heap ! j)"
    and "k < length heap" and "i_status (heap ! k) = FREE_PICTURE"
    and "\<forall>j<k. i_status (heap ! j) \<noteq> FREE_PICTURE"
  shows "vout_CreatePicture cfg heap a t w h = CreatePicture_prepare cfg heap a t w h k"
proof -
  from assms(1) have n: "first_index (matching_destroyed t w h) heap = None"
    by (simp add: first_index_None)
  from assms(2-4) have f: "first_index (\<lambda>p. i_status p = FREE_PICTURE) heap = Some k"
    by (simp add: first_index_Some)
  show ?thesis
    by (simp add: vout_CreatePicture_def CreatePicture_scan_eq n f split: option.splits)
qed

lemma CreatePicture_destroyed:
  assumes "\<forall>j<length heap. \<not> matching_destroyed t w h (heap ! j)"
    and "\<forall>j<length heap. i_status (heap ! j) \<noteq> FREE_PICTURE"
    and "k < length heap" and "i_status (heap ! k) = DESTROYED_PICTURE"
    and "\<forall>j<k. i_status (heap ! j) \<noteq> DESTROYED_PICTURE"
  shows "vout_CreatePicture cfg heap a t w h =
           CreatePicture_prepare cfg heap (free (p_data (heap ! k)) a) t w h k"
proof -
  from assms(1) have n: "first_index (matching_destroyed t w h) heap = None"
    by (simp add: first_index_None)
  from assms(2) have g: "first_index (\<lambda>p. i_status p = FREE_PICTURE) heap = None"
    by (simp add: first_index_None)
  from assms(3-5) have f: "first_index (\<lambda>p. i_status p = DESTROYED_PICTURE) heap = Some k"
    by (simp add: first_index_Some)
  show ?thesis by (simp add: vout_CreatePicture_def CreatePicture_scan_eq n f g)
qed

lemma CreatePicture_full:
  assumes "\<forall>j<length heap. i_status (heap ! j) \<noteq> FREE_PICTURE"
    and "\<forall>j<length heap. i_status (heap ! j) \<noteq> DESTROYED_PICTURE"
  shows "vout_CreatePicture cfg heap a t w h = (None, heap, a)"
proof -
  from assms(2) have n: "first_index (matching_destroyed t w h) heap = None"
    by (simp add: first_index_None matching_destroyed_def)
  from assms(1) have g: "first_index (\<lambda>p. i_status p = FREE_PICTURE) heap = None"
    by (simp add: first_index_None)
  from assms(2) have f: "first_index (\<lambda>p. i_status p = DESTROYED_PICTURE) heap = None"
    by (simp add: first_index_None)
  show ?thesis by (simp add: vout_CreatePicture_def CreatePicture_scan_eq n f g)
qed

lemma CreatePicture_prepare_ok:
  assumes "t \<in> {YUV_420_PICTURE, YUV_422_PICTURE, YUV_444_PICTURE}"
    and "avail a = x # xs" and "k < length heap"
  shows "case CreatePicture_prepare cfg heap a t w h k of (r, heap', a') \<Rightarrow>
           r = Some k \<and> i_status (heap' ! k) = RESERVED_PICTURE \<and> p_data (heap' ! k) = Some x
         \<and> i_type (heap' ! k) = t \<and> i_width (heap' ! k) = w \<and> i_height (heap' ! k) = h
         \<and> i_refcount (heap' ! k) = 0
         \<and> (\<forall>j<length heap. j \<noteq> k \<longrightarrow> heap' ! j = heap ! j)
         \<and> avail a' = xs \<and> length (malloc_log a') = Suc (length (malloc_log a))
         \<and> free_log a' = free_log a"
  using assms
  by (auto simp: CreatePicture_prepare_def CreatePicture_alloc_def malloc_def Let_def
      split: prod.splits)

lemma CreatePicture_prepare_nomem:
  assumes "t \<in> {YUV_420_PICTURE, YUV_422_PICTURE, YUV_444_PICTURE}"
    and "avail a = []" and "k < length heap"
  shows "case CreatePicture_prepare cfg heap a t w h k of (r, heap', a') \<Rightarrow>
           r = None \<and> i_status (heap' ! k) = FREE_PICTURE \<and> i_type (heap' ! k) = EMPTY_PICTURE
         \<and> (\<forall>j<length heap. j \<noteq> k \<longrightarrow> heap' ! j = heap ! j)"
  using assms
  by (auto simp: CreatePicture_prepare_def CreatePicture_alloc_def malloc_def Let_def
      split: prod.splits)

lemma CreatePicture_prepare_debug:
  assumes "t \<notin> {YUV_420_PICTURE, YUV_422_PICTURE, YUV_444_PICTURE}"
    and "DEBUG cfg" and "k < length heap"
  shows "case CreatePicture_prepare cfg heap a t w h k of (r, heap', a') \<Rightarrow>
           r = None \<and> i_status (heap' ! k) = FREE_PICTURE \<and> i_type (heap' ! k) = EMPTY_PICTURE
         \<and> (\<forall>j<length heap. j \<noteq> k \<longrightarrow> heap' ! j = heap ! j) \<and> a' = a"
  using assms
  by (cases t) (simp_all add: CreatePicture_prepare_def CreatePicture_alloc_def)

text \<open>
  C2, as the code has it. For a call \<^verbatim>\<open>vout_CreatePicture(type, width, height)\<close>:
  \<^item> if some picture is destroyed with exactly this type, width and height, the
    first such picture is returned, reserved, with its buffer kept; nothing is
    allocated or freed and no other picture changes;
  \<^item> otherwise, if some picture is free, the first free picture is prepared,
    whether or not a destroyed picture exists;
  \<^item> otherwise, if some picture is destroyed, the buffer of the first destroyed
    picture is freed and that picture is prepared;
  \<^item> otherwise the call returns null and changes nothing (heap full).

  Preparing a picture of one of the three YUV types allocates one buffer: with
  memory left the picture is returned reserved, with the new buffer, the type
  and size asked for and no reference; with none left the call returns null and
  the picture is set free. For any other type a program compiled with \<^verbatim>\<open>DEBUG\<close>
  allocates nothing, sets the picture free and returns null.
\<close>

theorem CreatePicture_slot_choice:
  "(\<forall>k. k < length heap \<and> matching_destroyed t w h (heap ! k)
        \<and> (\<forall>j<k. \<not> matching_destroyed t w h (heap ! j)) \<longrightarrow>
        vout_CreatePicture cfg heap a t w h =
          (Some k, heap[k := (heap ! k)\<lparr>i_status := RESERVED_PICTURE\<rparr>], a))
   \<and> ((\<forall>j<length heap. \<not> matching_destroyed t w h (heap ! j)) \<longrightarrow>
        (\<forall>k. k < length heap \<and> i_status (heap ! k) = FREE_PICTURE
              \<and> (\<forall>j<k. i_status (heap ! j) \<noteq> FREE_PICTURE) \<longrightarrow>
            vout_CreatePicture cfg heap a t w h = CreatePicture_prepare cfg heap a t w h k)
      \<and> ((\<forall>j<length heap. i_status (heap ! j) \<noteq> FREE_PICTURE) \<longrightarrow>
            (\<forall>k. k < length heap \<and> i_status (heap ! k) = DESTROYED_PICTURE
                  \<and> (\<forall>j<k. i_status (heap ! j) \<noteq> DESTROYED_PICTURE) \<longrightarrow>
                vout_CreatePicture cfg heap a t w h =
                  CreatePicture_prepare cfg heap (free (p_data (heap ! k)) a) t w h k)
          \<and> ((\<forall>j<length heap. i_status (heap ! j) \<noteq> DESTROYED_PICTURE) \<longrightarrow>
                vout_CreatePicture cfg heap a t w h = (None, heap, a))))
   \<and> (\<forall>k x xs. t \<in> {YUV_420_PICTURE, YUV_422_PICTURE, YUV_444_PICTURE}
          \<and> avail a = x # xs \<and> k < length heap \<longrightarrow>
        (case CreatePicture_prepare cfg heap a t w h k of (r, heap', a') \<Rightarrow>
           r = Some k \<and> i_status (heap' ! k) = RESERVED_PICTURE \<and> p_data (heap' ! k) = Some x
         \<and> i_type (heap' ! k) = t \<and> i_width (heap' ! k) = w \<and> i_height (heap' ! k) = h
         \<and> i_refcount (heap' ! k) = 0
         \<and> (\<forall>j<length heap. j \<noteq> k \<longrightarrow> heap' ! j = heap ! j)
         \<and> avail a' = xs \<and> length (malloc_log a') = Suc (length (malloc_log a))
         \<and> free_log a' = free_log a))
   \<and> (\<forall>k. t \<in> {YUV_420_PICTURE, YUV_422_PICTURE, YUV_444_PICTURE}
          \<and> avail a = [] \<and> k < length heap \<longrightarrow>
        (case CreatePicture_prepare cfg heap a t w h k of (r, heap', a') \<Rightarrow>
           r = None \<and> i_status (heap' ! k) = FREE_PICTURE \<and> i_type (heap' ! k) = EMPTY_PICTURE
         \<and> (\<forall>j<length heap. j \<noteq> k \<longrightarrow> heap' ! j = heap ! j)))
   \<and> (\<forall>k. t \<notin> {YUV_420_PICTURE, YUV_422_PICTURE, YUV_444_PICTURE}
          \<and> DEBUG cfg \<and> k < length heap \<longrightarrow>
        (case CreatePicture_prepare cfg heap a t w h k of (r, heap', a') \<Rightarrow>
           r = None \<and> i_status (heap' ! k) = FREE_PICTURE \<and> i_type (heap' ! k) = EMPTY_PICTURE
         \<and> (\<forall>j<length heap. j \<noteq> k \<longrightarrow> heap' ! j = heap ! j) \<and> a' = a))"
proof (intro conjI allI impI)
  fix k
  assume "k < length heap \<and> matching_destroyed t w h (heap ! k)
        \<and> (\<forall>j<k. \<not> matching_destroyed t w h (heap ! j))"
  then show "vout_CreatePicture cfg heap a t w h =
          (Some k, heap[k := (heap ! k)\<lparr>i_status := RESERVED_PICTURE\<rparr>], a)"
    by (simp add: CreatePicture_match)
next
  fix k
  assume "\<forall>j<length heap. \<not> matching_destroyed t w h (heap ! j)"
    and "k < length heap \<and> i_status (heap ! k) = FREE_PICTURE
              \<and> (\<forall>j<k. i_status (heap ! j) \<noteq> FREE_PICTURE)"
  then show "vout_CreatePicture cfg heap a t w h = CreatePicture_prepare cfg heap a t w h k"
    by (simp add: CreatePicture_free)
next
  fix k
  assume "\<forall>j<length heap. \<not> matching_destroyed t w h (heap ! j)"
    and "\<forall>j<length heap. i_status (heap ! j) \<noteq> FREE_PICTURE"
    and "k < length heap \<and> i_status (heap ! k) = DESTROYED_PICTURE
                  \<and> (\<forall>j<k. i_status (heap ! j) \<noteq> DESTROYED_PICTURE)"
  then show "vout_CreatePicture cfg heap a t w h =
                  CreatePicture_prepare cfg heap (free (p_data (heap ! k)) a) t w h k"
    by (simp add: CreatePicture_destroyed)
next
  assume "\<forall>j<length heap. i_status (heap ! j) \<noteq> FREE_PICTURE"
    and "\<forall>j<length heap. i_status (heap ! j) \<noteq> DESTROYED_PICTURE"
  then show "vout_CreatePicture cfg heap a t w h = (None, heap, a)"
    by (rule CreatePicture_full)
next
  fix k x xs
  assume "t \<in> {YUV_420_PICTURE, YUV_422_PICTURE, YUV_444_PICTURE}
          \<and> avail a = x # xs \<and> k < length heap"
  then have a1: "t \<in> {YUV_420_PICTURE, YUV_422_PICTURE, YUV_444_PICTURE}"
    and a2: "avail a = x # xs" and a3: "k < length heap"
    by simp_all
  show "case CreatePicture_prepare cfg heap a t w h k of (r, heap', a') \<Rightarrow>
           r = Some k \<and> i_status (heap' ! k) = RESERVED_PICTURE \<and> p_data (heap' ! k) = Some x
         \<and> i_type (heap' ! k) = t \<and> i_width (heap' ! k) = w \<and> i_height (heap' ! k) = h
         \<and> i_refcount (heap' ! k) = 0
         \<and> (\<forall>j<length heap. j \<noteq> k \<longrightarrow> heap' ! j = heap ! j)
         \<and> avail a' = xs \<and> length (malloc_log a') = Suc (length (malloc_log a))
         \<and> free_log a' = free_log a"
    by (rule CreatePicture_prepare_ok [OF a1 a2 a3])
next
  fix k
  assume "t \<in> {YUV_420_PICTURE, YUV_422_PICTURE, YUV_444_PICTURE}
          \<and> avail a = [] \<and> k < length heap"
  then have a1: "t \<in> {YUV_420_PICTURE, YUV_422_PICTURE, YUV_444_PICTURE}"
    and a2: "avail a = []" and a3: "k < length heap"
    by simp_all
  show "case CreatePicture_prepare cfg heap a t w h k of (r, heap', a') \<Rightarrow>
           r = None \<and> i_status (heap' ! k) = FREE_PICTURE \<and> i_type (heap' ! k) = EMPTY_PICTURE
         \<and> (\<forall>j<length heap. j \<noteq> k \<longrightarrow> heap' ! j = heap ! j)"
    by (rule CreatePicture_prepare_nomem [OF a1 a2 a3])
next
  fix k
  assume "t \<notin> {YUV_420_PICTURE, YUV_422_PICTURE, YUV_444_PICTURE}
          \<and> DEBUG cfg \<and> k < length heap"
  then have a1: "t \<notin> {YUV_420_PICTURE, YUV_422_PICTURE, YUV_444_PICTURE}"
    and a2: "DEBUG cfg" and a3: "k < length heap"
    by simp_all
  show "case CreatePicture_prepare cfg heap a t w h k of (r, heap', a') \<Rightarrow>
           r = None \<and> i_status (heap' ! k) = FREE_PICTURE \<and> i_type (heap' ! k) = EMPTY_PICTURE
         \<and> (\<forall>j<length heap. j \<noteq> k \<longrightarrow> heap' ! j = heap ! j) \<and> a' = a"
    by (rule CreatePicture_prepare_debug [OF a1 a2 a3])
qed

text \<open>
  A picture of 640 by 480 in YUV 4:2:0 that was destroyed sits at index 1, after
  a reserved picture and before a free one. A second picture of that size and
  type gets index 1 again, with the buffer it had, and the allocator is not
  called.
\<close>

theorem CreatePicture_slot_choice_witness:
  "(1::nat) < length [ex_picture\<lparr>i_status := RESERVED_PICTURE\<rparr>, ex_picture, ex_free_picture]
   \<and> matching_destroyed YUV_420_PICTURE 640 480
       ([ex_picture\<lparr>i_status := RESERVED_PICTURE\<rparr>, ex_picture, ex_free_picture] ! 1)
   \<and> \<not> matching_destroyed YUV_420_PICTURE 640 480
       ([ex_picture\<lparr>i_status := RESERVED_PICTURE\<rparr>, ex_picture, ex_free_picture] ! 0)
   \<and> vout_CreatePicture ex_cfg
        [ex_picture\<lparr>i_status := RESERVED_PICTURE\<rparr>, ex_picture, ex_free_picture]
        ex_allocator YUV_420_PICTURE 640 480
      = (Some 1,
         [ex_picture\<lparr>i_status := RESERVED_PICTURE\<rparr>, ex_picture\<lparr>i_status := RESERVED_PICTURE\<rparr>,
          ex_free_picture],
         ex_allocator)"
  using CreatePicture_slot_choice
    [where heap = "[ex_picture\<lparr>i_status := RESERVED_PICTURE\<rparr>, ex_picture, ex_free_picture]"
       and t = YUV_420_PICTURE and w = 640 and h = 480 and cfg = ex_cfg and a = ex_allocator]
  by (simp add: matching_destroyed_def ex_picture_def ex_free_picture_def
      vout_CreatePicture_def)

text \<open>
  The claim as stated fails when a destroyed picture of another size stands
  before a free picture: the free picture at index 1 is taken, and the buffer of
  the destroyed picture at index 0 is neither freed nor reused.
\<close>

theorem CreatePicture_prefers_free_counterexample:
  "fst (vout_CreatePicture ex_cfg [ex_picture\<lparr>i_width := 320, i_height := 240\<rparr>, ex_free_picture]
          ex_allocator YUV_420_PICTURE 640 480) = Some 1
   \<and> free_log (snd (snd (vout_CreatePicture ex_cfg
          [ex_picture\<lparr>i_width := 320, i_height := 240\<rparr>, ex_free_picture]
          ex_allocator YUV_420_PICTURE 640 480))) = []
   \<and> fst (snd (vout_CreatePicture ex_cfg
          [ex_picture\<lparr>i_width := 320, i_height := 240\<rparr>, ex_free_picture]
          ex_allocator YUV_420_PICTURE 640 480)) ! 0
      = ex_picture\<lparr>i_width := 320, i_height := 240\<rparr>"
  by (simp add: vout_CreatePicture_def CreatePicture_prepare_def CreatePicture_alloc_def
      malloc_def ex_picture_def ex_free_picture_def ex_allocator_def ex_cfg_def c_div_def)

text \<open>
  A call that the theorem leaves out: a type that is not one of the three YUV
  types, in a program compiled without \<^verbatim>\<open>DEBUG\<close>. The \<^verbatim>\<open>switch\<close> has no case for
  it, nothing is allocated, and the destroyed picture is returned reserved with
  the buffer that has just been freed.
\<close>

lemma CreatePicture_other_type_left_out:
  "\<not> DEBUG ex_cfg
   \<and> fst (vout_CreatePicture ex_cfg [ex_picture] ex_allocator (OTHER_PICTURE 7) 640 480) = Some 0
   \<and> i_status (fst (snd (vout_CreatePicture ex_cfg [ex_picture] ex_allocator
                            (OTHER_PICTURE 7) 640 480)) ! 0) = RESERVED_PICTURE
   \<and> p_data (fst (snd (vout_CreatePicture ex_cfg [ex_picture] ex_allocator
                          (OTHER_PICTURE 7) 640 480)) ! 0) = Some 5
   \<and> free_log (snd (snd (vout_CreatePicture ex_cfg [ex_picture] ex_allocator
                            (OTHER_PICTURE 7) 640 480))) = [Some 5]
   \<and> malloc_log (snd (snd (vout_CreatePicture ex_cfg [ex_picture] ex_allocator
                              (OTHER_PICTURE 7) 640 480))) = []"
  by (simp add: vout_CreatePicture_def CreatePicture_prepare_def CreatePicture_alloc_def
      free_def ex_picture_def ex_allocator_def ex_cfg_def)

section \<open>Reference counts and destruction\<close>





section \<open>The picture box\<close>

lemma c_div_16_le: "0 \<le> a \<Longrightarrow> c_div a 16 * 16 \<le> a \<and> a - c_div a 16 * 16 < 16"
  by (simp add: c_div_nonneg) presburger

lemma c_div_16_range: "0 \<le> a \<Longrightarrow> 0 \<le> c_div a 16 * 16 \<and> c_div a 16 * 16 \<le> a"
  using c_div_16_le [of a] by (simp add: c_div_nonneg)

lemma c_div_2_centre: "\<bar>a - 2 * c_div a 2\<bar> \<le> 1"
  by (cases "0 \<le> a") (simp_all add: c_div_def sgn_if, presburger+)

lemma c_div_range: "0 \<le> a \<Longrightarrow> 0 < b \<Longrightarrow> 0 \<le> c_div a b \<and> c_div a b \<le> a"
proof -
  assume a: "0 \<le> a" and b: "0 < b"
  have "a div b \<le> a div 1" using a b by (intro zdiv_mono2) simp_all
  with a b show ?thesis by (simp add: c_div_nonneg pos_imp_zdiv_nonneg_iff)
qed

text \<open>The product of two sizes of at most 32767 is in the range of \<^verbatim>\<open>int\<close>.\<close>

lemma size_product:
  assumes "0 \<le> a" and "a \<le> 32767" and "0 \<le> b" and "b \<le> 32767"
  shows "0 \<le> a * b \<and> a * b \<le> (1073676289::int)"
proof -
  from assms have "a * b \<le> 32767 * 32767" by (intro mult_mono) simp_all
  with assms show ?thesis by simp
qed

lemma aspect_height_small:
  assumes "0 \<le> w" and "w \<le> 32767" and "0 \<le> i_width pic" and "0 \<le> i_height pic"
    and "i_height pic \<le> 32767"
  shows "aspect_height pic w =
          (case i_aspect_ratio pic of
             AR_3_4_PICTURE \<Rightarrow> Inr (c_div (w * 3) 4)
           | AR_16_9_PICTURE \<Rightarrow> Inr (c_div (w * 9) 16)
           | AR_221_1_PICTURE \<Rightarrow> Inr (c_div (w * 100) 221)
           | _ \<Rightarrow> if i_width pic = 0 then Inl DivisionByZero
                  else Inr (c_div (i_height pic * w) (i_width pic)))"
proof -
  from size_product [of "i_height pic" w] assms
  have p: "0 \<le> i_height pic * w" "i_height pic * w \<le> 1073676289" by blast+
  then have "int32 (i_height pic * w) = i_height pic * w" by (intro int32_id) linarith+
  moreover note p(1)
  moreover from assms have "int32 (w * 3) = w * 3" "int32 (w * 9) = w * 9"
    "int32 (w * 100) = w * 100" by (simp_all add: int32_id)
  ultimately show ?thesis using assms
    by (simp add: aspect_height_def c_divide_def split: aspect_ratio.splits)
qed

lemma aspect_width_small:
  assumes "0 \<le> h" and "h \<le> 32767" and "0 \<le> i_height pic" and "0 \<le> i_width pic"
    and "i_width pic \<le> 32767"
  shows "aspect_width pic h =
          (case i_aspect_ratio pic of
             AR_3_4_PICTURE \<Rightarrow> Inr (c_div (h * 4) 3)
           | AR_16_9_PICTURE \<Rightarrow> Inr (c_div (h * 16) 9)
           | AR_221_1_PICTURE \<Rightarrow> Inr (c_div (h * 221) 100)
           | _ \<Rightarrow> if i_height pic = 0 then Inl DivisionByZero
                  else Inr (c_div (i_width pic * h) (i_height pic)))"
proof -
  from size_product [of "i_width pic" h] assms
  have p: "0 \<le> i_width pic * h" "i_width pic * h \<le> 1073676289" by blast+
  then have "int32 (i_width pic * h) = i_width pic * h" by (intro int32_id) linarith+
  moreover note p(1)
  moreover from assms have "int32 (h * 4) = h * 4" "int32 (h * 16) = h * 16"
    "int32 (h * 221) = h * 221" by (simp_all add: int32_id)
  ultimately show ?thesis using assms
    by (simp add: aspect_width_def c_divide_def split: aspect_ratio.splits)
qed

lemma aspect_height_range:
  assumes "0 \<le> w" and "w \<le> 32767" and "0 \<le> i_width pic" and "0 \<le> i_height pic"
    and "i_height pic \<le> 32767" and "aspect_height pic w = Inr h1"
  shows "0 \<le> h1 \<and> h1 \<le> 1073676289"
proof -
  have p: "0 \<le> i_height pic * w \<and> i_height pic * w \<le> 1073676289"
    using size_product [of "i_height pic" w] assms by simp
  have q: "0 \<le> c_div (i_height pic * w) (i_width pic)
         \<and> c_div (i_height pic * w) (i_width pic) \<le> i_height pic * w" if "i_width pic \<noteq> 0"
    using c_div_range [of "i_height pic * w" "i_width pic"] p assms(3) that by simp
  from assms(6) show ?thesis
    unfolding aspect_height_small [OF assms(1-5)]
    using assms(1,2) p q
      c_div_range [of "w * 3" 4] c_div_range [of "w * 9" 16] c_div_range [of "w * 100" 221]
    by (auto split: aspect_ratio.splits if_splits)
qed

lemma aspect_width_range:
  assumes "0 \<le> h" and "h \<le> 32767" and "0 \<le> i_height pic" and "0 \<le> i_width pic"
    and "i_width pic \<le> 32767" and "aspect_width pic h = Inr w2"
  shows "0 \<le> w2 \<and> w2 \<le> 1073676289"
proof -
  have p: "0 \<le> i_width pic * h \<and> i_width pic * h \<le> 1073676289"
    using size_product [of "i_width pic" h] assms by simp
  have q: "0 \<le> c_div (i_width pic * h) (i_height pic)
         \<and> c_div (i_width pic * h) (i_height pic) \<le> i_width pic * h" if "i_height pic \<noteq> 0"
    using c_div_range [of "i_width pic * h" "i_height pic"] p assms(3) that by simp
  from assms(6) show ?thesis
    unfolding aspect_width_small [OF assms(1-5)]
    using assms(1,2) p q
      c_div_range [of "h * 4" 3] c_div_range [of "h * 16" 9] c_div_range [of "h * 221" 100]
    by (auto split: aspect_ratio.splits if_splits)
qed

text \<open>
  For a sink and a picture whose widths and heights are between 0 and 32767, no
  product, sum or difference of \<^verbatim>\<open>SetBufferPicture\<close> leaves the range of \<^verbatim>\<open>int\<close>.
\<close>

lemma size_eq:
  fixes p_vout :: "'a vout_thread_scheme" and pic :: picture
  defines "W \<equiv> vout_i_width p_vout" and "H \<equiv> vout_i_height p_vout"
  defines "w0 \<equiv> (if b_scale p_vout \<or> i_width pic > vout_i_width p_vout
                   then vout_i_width p_vout else i_width pic)"
  defines "h2 \<equiv> (if b_scale p_vout \<or> i_height pic > vout_i_height p_vout
                   then vout_i_height p_vout else i_height pic)"
  assumes r: "0 \<le> W" "W \<le> 32767" "0 \<le> H" "H \<le> 32767"
    "0 \<le> i_width pic" "i_width pic \<le> 32767" "0 \<le> i_height pic" "i_height pic \<le> 32767"
  shows "SetBufferPicture_size p_vout (Some pic) =
     (case aspect_height pic (c_div w0 16 * 16) of
        Inl e \<Rightarrow> Inl e
      | Inr h1 \<Rightarrow>
          if h1 > H then
            (case aspect_width pic h2 of
               Inl e \<Rightarrow> Inl e
             | Inr w2 \<Rightarrow>
                 Inr (c_div (W - c_div w2 16 * 16) 2, c_div (H - h2) 2, c_div w2 16 * 16, h2))
          else Inr (c_div (W - c_div w0 16 * 16) 2, c_div (H - h1) 2, c_div w0 16 * 16, h1))"
proof -
  let ?w1 = "c_div w0 16 * 16"
  from r have w0: "0 \<le> w0" "w0 \<le> 32767" by (auto simp: w0_def W_def)
  from r have h2: "0 \<le> h2" "h2 \<le> 32767" by (auto simp: h2_def H_def)
  from c_div_16_range [OF w0(1)] w0 have w1: "0 \<le> ?w1" "?w1 \<le> 32767" by simp_all
  then have i1: "int32 ?w1 = ?w1" by (intro int32_id) linarith+
  from w1 r have i2: "int32 (W - ?w1) = W - ?w1" by (intro int32_id) linarith+
  from h2 r have i3: "int32 (H - h2) = H - h2" by (intro int32_id) linarith+
  have s: "SetBufferPicture_size p_vout (Some pic) =
     (case aspect_height pic ?w1 of
        Inl e \<Rightarrow> Inl e
      | Inr h1 \<Rightarrow>
          if h1 > H then
            (case aspect_width pic h2 of
               Inl e \<Rightarrow> Inl e
             | Inr w2 \<Rightarrow>
                 Inr (c_div (int32 (W - int32 (c_div w2 16 * 16))) 2, c_div (H - h2) 2,
                      int32 (c_div w2 16 * 16), h2))
          else Inr (c_div (W - ?w1) 2, c_div (int32 (H - h1)) 2, ?w1, h1))"
    unfolding SetBufferPicture_size_def Let_def option.case
    using i1 i2 i3 unfolding w0_def h2_def W_def H_def by (simp only:)
  show ?thesis
  proof (cases "aspect_height pic ?w1")
    case (Inl e)
    with s show ?thesis by simp
  next
    case (Inr h1)
    from aspect_height_range [OF w1 r(5,7,8) Inr] have h1: "0 \<le> h1" "h1 \<le> 1073676289"
      by simp_all
    show ?thesis
    proof (cases "h1 > H")
      case False
      with h1 r have "int32 (H - h1) = H - h1" by (intro int32_id) linarith+
      with s Inr False show ?thesis by simp
    next
      case True
      show ?thesis
      proof (cases "aspect_width pic h2")
        case (Inl e)
        with s Inr True show ?thesis by simp
      next
        case w: (Inr w2)
        from aspect_width_range [OF h2 r(7,5,6) w] have w2: "0 \<le> w2" "w2 \<le> 1073676289"
          by simp_all
        from c_div_16_range [OF w2(1)] w2
        have w3: "0 \<le> c_div w2 16 * 16" "c_div w2 16 * 16 \<le> 1073676289" by simp_all
        then have j1: "int32 (c_div w2 16 * 16) = c_div w2 16 * 16"
          by (intro int32_id) linarith+
        from w3 r have j2: "int32 (W - c_div w2 16 * 16) = W - c_div w2 16 * 16"
          by (intro int32_id) linarith+
        from s Inr True w show ?thesis by (simp add: j1 j2)
      qed
    qed
  qed
qed

text \<open>
  C7, as the code has it. Write \<open>W\<close> and \<open>H\<close> for the width and height of the
  sink. For a picture prepared for rendering, the widths and heights of the
  sink and of the picture being between 0 and 32767:
  \<^item> the width tried first is \<open>W\<close> when scaling is on (\<open>b_scale\<close>) and
    \<open>min W srcWidth\<close> when it is off, rounded down to a multiple of 16;
  \<^item> the height that goes with a width \<open>w\<close> is \<open>w * 3 / 4\<close>, \<open>w * 9 / 16\<close> or
    \<open>w * 100 / 221\<close> for the three declared ratios and
    \<open>srcHeight * w / srcWidth\<close> otherwise;
  \<^item> if that height is at most \<open>H\<close>, the box has this width and height;
  \<^item> if it exceeds \<open>H\<close>, the height is \<open>H\<close> when scaling is on and
    \<open>min H srcHeight\<close> when it is off, and the width is the one that goes with
    this height (\<open>h * 4 / 3\<close>, \<open>h * 16 / 9\<close>, \<open>h * 221 / 100\<close>,
    \<open>srcWidth * h / srcHeight\<close>), rounded to a multiple of 16;
  \<^item> the box is centred: its left and top margins are half of what the sink has
    left, so the two margins on each axis differ by at most one;
  \<^item> a box is computed for every picture whose width and height are not zero.
\<close>

theorem SetBufferPicture_size_box:
  fixes p_vout :: "'a vout_thread_scheme" and pic :: picture
  defines "W \<equiv> vout_i_width p_vout" and "H \<equiv> vout_i_height p_vout"
  defines "w0 \<equiv> (if b_scale p_vout \<or> i_width pic > vout_i_width p_vout
                   then vout_i_width p_vout else i_width pic)"
  defines "h2 \<equiv> (if b_scale p_vout \<or> i_height pic > vout_i_height p_vout
                   then vout_i_height p_vout else i_height pic)"
  assumes r: "0 \<le> W" "W \<le> 32767" "0 \<le> H" "H \<le> 32767"
    "0 \<le> i_width pic" "i_width pic \<le> 32767" "0 \<le> i_height pic" "i_height pic \<le> 32767"
  shows "(\<not> b_scale p_vout \<longrightarrow> w0 = min W (i_width pic) \<and> h2 = min H (i_height pic))
   \<and> (b_scale p_vout \<longrightarrow> w0 = W \<and> h2 = H)
   \<and> c_div w0 16 * 16 \<le> w0 \<and> w0 - c_div w0 16 * 16 < 16
   \<and> (\<forall>w. 0 \<le> w \<and> w \<le> 32767 \<longrightarrow> aspect_height pic w =
          (case i_aspect_ratio pic of
             AR_3_4_PICTURE \<Rightarrow> Inr (c_div (w * 3) 4)
           | AR_16_9_PICTURE \<Rightarrow> Inr (c_div (w * 9) 16)
           | AR_221_1_PICTURE \<Rightarrow> Inr (c_div (w * 100) 221)
           | _ \<Rightarrow> if i_width pic = 0 then Inl DivisionByZero
                  else Inr (c_div (i_height pic * w) (i_width pic))))
   \<and> (\<forall>h. 0 \<le> h \<and> h \<le> 32767 \<longrightarrow> aspect_width pic h =
          (case i_aspect_ratio pic of
             AR_3_4_PICTURE \<Rightarrow> Inr (c_div (h * 4) 3)
           | AR_16_9_PICTURE \<Rightarrow> Inr (c_div (h * 16) 9)
           | AR_221_1_PICTURE \<Rightarrow> Inr (c_div (h * 221) 100)
           | _ \<Rightarrow> if i_height pic = 0 then Inl DivisionByZero
                  else Inr (c_div (i_width pic * h) (i_height pic))))
   \<and> (\<forall>h1. aspect_height pic (c_div w0 16 * 16) = Inr h1 \<and> h1 \<le> H \<longrightarrow>
         SetBufferPicture_size p_vout (Some pic) =
           Inr (c_div (W - c_div w0 16 * 16) 2, c_div (H - h1) 2, c_div w0 16 * 16, h1))
   \<and> (\<forall>h1 w2. aspect_height pic (c_div w0 16 * 16) = Inr h1 \<and> h1 > H
           \<and> aspect_width pic h2 = Inr w2 \<longrightarrow>
         SetBufferPicture_size p_vout (Some pic) =
           Inr (c_div (W - c_div w2 16 * 16) 2, c_div (H - h2) 2, c_div w2 16 * 16, h2))
   \<and> (\<forall>x y w h. SetBufferPicture_size p_vout (Some pic) = Inr (x, y, w, h) \<longrightarrow>
         16 dvd w \<and> \<bar>W - w - 2 * x\<bar> \<le> 1 \<and> \<bar>H - h - 2 * y\<bar> \<le> 1)
   \<and> (i_width pic \<noteq> 0 \<and> i_height pic \<noteq> 0 \<longrightarrow>
         (\<exists>box. SetBufferPicture_size p_vout (Some pic) = Inr box))"
proof -
  note s = size_eq [OF r [unfolded W_def H_def], folded W_def H_def w0_def h2_def]
  from r have w0: "0 \<le> w0" "w0 \<le> 32767" by (auto simp: w0_def W_def)
  from r have h2: "0 \<le> h2" "h2 \<le> 32767" by (auto simp: h2_def H_def)
  from c_div_16_range [OF w0(1)] w0
  have w1: "0 \<le> c_div w0 16 * 16" "c_div w0 16 * 16 \<le> 32767" by simp_all
  have 1: "(\<not> b_scale p_vout \<longrightarrow> w0 = min W (i_width pic) \<and> h2 = min H (i_height pic))
      \<and> (b_scale p_vout \<longrightarrow> w0 = W \<and> h2 = H)"
    by (simp add: w0_def h2_def W_def H_def min_def)
  have 2: "c_div w0 16 * 16 \<le> w0 \<and> w0 - c_div w0 16 * 16 < 16"
    using c_div_16_le [OF w0(1)] .
  have 3: "\<forall>w. 0 \<le> w \<and> w \<le> 32767 \<longrightarrow> aspect_height pic w =
          (case i_aspect_ratio pic of
             AR_3_4_PICTURE \<Rightarrow> Inr (c_div (w * 3) 4)
           | AR_16_9_PICTURE \<Rightarrow> Inr (c_div (w * 9) 16)
           | AR_221_1_PICTURE \<Rightarrow> Inr (c_div (w * 100) 221)
           | _ \<Rightarrow> if i_width pic = 0 then Inl DivisionByZero
                  else Inr (c_div (i_height pic * w) (i_width pic)))"
    using aspect_height_small [OF _ _ r(5,7,8)] by blast
  have 4: "\<forall>h. 0 \<le> h \<and> h \<le> 32767 \<longrightarrow> aspect_width pic h =
          (case i_aspect_ratio pic of
             AR_3_4_PICTURE \<Rightarrow> Inr (c_div (h * 4) 3)
           | AR_16_9_PICTURE \<Rightarrow> Inr (c_div (h * 16) 9)
           | AR_221_1_PICTURE \<Rightarrow> Inr (c_div (h * 221) 100)
           | _ \<Rightarrow> if i_height pic = 0 then Inl DivisionByZero
                  else Inr (c_div (i_width pic * h) (i_height pic)))"
    using aspect_width_small [OF _ _ r(7,5,6)] by blast
  have 5: "\<forall>h1. aspect_height pic (c_div w0 16 * 16) = Inr h1 \<and> h1 \<le> H \<longrightarrow>
         SetBufferPicture_size p_vout (Some pic) =
           Inr (c_div (W - c_div w0 16 * 16) 2, c_div (H - h1) 2, c_div w0 16 * 16, h1)"
    by (simp add: s)
  have 6: "\<forall>h1 w2. aspect_height pic (c_div w0 16 * 16) = Inr h1 \<and> h1 > H
           \<and> aspect_width pic h2 = Inr w2 \<longrightarrow>
         SetBufferPicture_size p_vout (Some pic) =
           Inr (c_div (W - c_div w2 16 * 16) 2, c_div (H - h2) 2, c_div w2 16 * 16, h2)"
    by (simp add: s)
  have 7: "16 dvd w \<and> \<bar>W - w - 2 * x\<bar> \<le> 1 \<and> \<bar>H - h - 2 * y\<bar> \<le> 1"
    if "SetBufferPicture_size p_vout (Some pic) = Inr (x, y, w, h)" for x y w h
  proof -
    from that have "16 dvd w \<and> x = c_div (W - w) 2 \<and> y = c_div (H - h) 2"
      by (auto simp: s split: sum.splits if_splits)
    then show ?thesis
      using c_div_2_centre [of "W - w"] c_div_2_centre [of "H - h"] by simp
  qed
  have 8: "i_width pic \<noteq> 0 \<and> i_height pic \<noteq> 0 \<longrightarrow>
         (\<exists>box. SetBufferPicture_size p_vout (Some pic) = Inr box)"
    using aspect_height_small [OF w1 r(5,7,8)] aspect_width_small [OF h2 r(7,5,6)]
    by (auto simp: s split: sum.splits aspect_ratio.splits)
  from 1 2 3 4 5 6 7 8 show ?thesis by blast
qed

lemma c_div_numeral: "c_div (numeral a) (numeral b) = numeral a div numeral b"
  by (simp add: c_div_nonneg)

text \<open>
  A sink of 640 by 480 without scaling. A square picture of 330 by 240 gets the
  box of 320 by 232 at (160, 124). With a sink of 640 by 300, a picture of 720
  by 576 declared 3:4 would be 640 by 480 and is fitted vertically: 400 by 300
  at (120, 0).
\<close>

theorem SetBufferPicture_size_box_witness:
  "\<not> b_scale ex_vout
   \<and> vout_i_width ex_vout = 640 \<and> vout_i_height ex_vout = 480
   \<and> vout_i_height (ex_vout\<lparr>vout_i_height := 300\<rparr>) = 300
   \<and> aspect_height (ex_picture\<lparr>i_width := 330, i_height := 240\<rparr>) (c_div 330 16 * 16) = Inr 232
   \<and> (232::int) \<le> vout_i_height ex_vout
   \<and> SetBufferPicture_size ex_vout (Some (ex_picture\<lparr>i_width := 330, i_height := 240\<rparr>))
       = Inr (160, 124, 320, 232)
   \<and> aspect_height (ex_picture\<lparr>i_width := 720, i_height := 576,
                                i_aspect_ratio := AR_3_4_PICTURE\<rparr>) (c_div 640 16 * 16) = Inr 480
   \<and> (480::int) > vout_i_height (ex_vout\<lparr>vout_i_height := 300\<rparr>)
   \<and> SetBufferPicture_size (ex_vout\<lparr>vout_i_height := 300\<rparr>)
        (Some (ex_picture\<lparr>i_width := 720, i_height := 576, i_aspect_ratio := AR_3_4_PICTURE\<rparr>))
       = Inr (120, 0, 400, 300)"
proof -
  let ?p = "ex_picture\<lparr>i_width := 330, i_height := 240\<rparr>"
  let ?q = "ex_picture\<lparr>i_width := 720, i_height := 576, i_aspect_ratio := AR_3_4_PICTURE\<rparr>"
  let ?v = "ex_vout\<lparr>vout_i_height := 300\<rparr>"
  have s: "\<not> b_scale ex_vout" "\<not> b_scale ?v" by (simp_all add: ex_vout_def)
  have h: "vout_i_height ex_vout = 480" "vout_i_width ex_vout = 640"
    "vout_i_height ?v = 300" "vout_i_width ?v = 640"
    by (simp_all add: ex_vout_def)
  have g: "i_width ?p = 330" "i_height ?p = 240" "i_width ?q = 720" "i_height ?q = 576"
    by simp_all
  have rp: "0 \<le> vout_i_width ex_vout" "vout_i_width ex_vout \<le> 32767"
    "0 \<le> vout_i_height ex_vout" "vout_i_height ex_vout \<le> 32767"
    "0 \<le> i_width ?p" "i_width ?p \<le> 32767" "0 \<le> i_height ?p" "i_height ?p \<le> 32767"
    by (simp_all add: h)
  have rq: "0 \<le> vout_i_width ?v" "vout_i_width ?v \<le> 32767"
    "0 \<le> vout_i_height ?v" "vout_i_height ?v \<le> 32767"
    "0 \<le> i_width ?q" "i_width ?q \<le> 32767" "0 \<le> i_height ?q" "i_height ?q \<le> 32767"
    by (simp_all add: h)
  have z: "c_div 0 2 = 0" by (simp add: c_div_def)
  note c = c_div_numeral z
  have i: "int32 76800 = 76800" "int32 1920 = 1920" "int32 1200 = 1200"
    by (simp_all add: int32_def)
  have a1: "aspect_height ?p (c_div 330 16 * 16) = Inr 232"
    by (simp add: aspect_height_def c_divide_def ex_picture_def c_div_numeral i)
  have a2: "aspect_height ?q (c_div 640 16 * 16) = Inr 480"
    by (simp add: aspect_height_def c_divide_def ex_picture_def c_div_numeral i)
  have a3: "aspect_width ?q 300 = Inr 400"
    by (simp add: aspect_width_def c_divide_def ex_picture_def c_div_numeral i)
  note t1 = SetBufferPicture_size_box [where p_vout = ex_vout and pic = ?p, OF rp,
      THEN conjunct2, THEN conjunct2, THEN conjunct2, THEN conjunct2, THEN conjunct2,
      THEN conjunct2, THEN conjunct1, rule_format, of 232]
  note t2 = SetBufferPicture_size_box [where p_vout = ?v and pic = ?q, OF rq,
      THEN conjunct2, THEN conjunct2, THEN conjunct2, THEN conjunct2, THEN conjunct2,
      THEN conjunct2, THEN conjunct2, THEN conjunct1, rule_format, of 480 400]
  have r1: "SetBufferPicture_size ex_vout (Some ?p) = Inr (160, 124, 320, 232)"
    using t1 a1 by (simp add: c s h)
  have r2: "SetBufferPicture_size ?v (Some ?q) = Inr (120, 0, 400, 300)"
    using t2 a2 a3 by (simp add: c s h)
  show ?thesis using s(1) a1 a2 r1 r2 h by simp
qed

text \<open>
  The claim as stated fails when scaling is on: for a sink of 640 by 480 and a
  square picture of 320 by 240 the box is 640 wide, not \<open>min 640 320\<close>.
\<close>

theorem SetBufferPicture_size_scale_counterexample:
  "SetBufferPicture_size (ex_vout\<lparr>b_scale := True\<rparr>)
     (Some (ex_picture\<lparr>i_width := 320, i_height := 240\<rparr>)) = Inr (0, 0, 640, 480)
   \<and> min (vout_i_width (ex_vout\<lparr>b_scale := True\<rparr>))
         (i_width (ex_picture\<lparr>i_width := 320, i_height := 240\<rparr>)) = 320"
proof -
  let ?v = "ex_vout\<lparr>b_scale := True\<rparr>"
  let ?p = "ex_picture\<lparr>i_width := 320, i_height := 240\<rparr>"
  have f: "b_scale ?v" "vout_i_width ?v = 640" "vout_i_height ?v = 480"
    "i_width ?p = 320" "i_height ?p = 240" "i_aspect_ratio ?p = AR_SQUARE_PICTURE"
    by (simp_all add: ex_vout_def ex_picture_def)
  have i: "int32 640 = 640" "int32 153600 = 153600" "int32 0 = 0"
    by (simp_all add: int32_def)
  have z: "c_div 0 2 = 0" by (simp add: c_div_def)
  have a: "aspect_height ?p 640 = Inr 480"
    by (simp add: aspect_height_def c_divide_def f i c_div_numeral)
  have "SetBufferPicture_size ?v (Some ?p) = Inr (0, 0, 640, 480)"
    by (simp add: SetBufferPicture_size_def Let_def f i a z c_div_numeral)
  with f show ?thesis by simp
qed

section \<open>Late and early pictures\<close>











section \<open>The areas to clear\<close>


subsection \<open>The loops of \<^verbatim>\<open>SetBufferArea\<close>\<close>

text \<open>
  The loop that finds the place stops at the first area that does not end
  above row \<open>y\<close>; the scan for the areas to merge, whose test does not depend
  on its index, runs to the last area as soon as it is entered; the shift that
  follows then has nothing to move.
\<close>

lemma coordinate_int32:
  assumes "coordinate a" and "coordinate c"
  shows "int32 (a + c) = a + c" and "int32 (a - c) = a - c"
  using assms by (simp_all add: coordinate_def int32_id)






subsection \<open>Well-formed areas and covered rows\<close>







subsection \<open>The three ways an area enters the arrays\<close>







subsection \<open>The picture region\<close>






subsection \<open>Clearing\<close>








subsection \<open>Marking and clearing\<close>




subsection \<open>Marks and clears that the theorem leaves out\<close>

text \<open>
  Four inputs on which a slip of the code decides.
  \<^item> A mark of rows 2 and 3 above the one area of rows 10 to 14 has to become a
    new area before it. The loop that moves the areas down counts upward,
    \<^verbatim>\<open>i_area_copy++\<close>, and stores outside the arrays.
  \<^item> A mark of rows 0 to 7 across a picture region of rows 2 to 4 leaves the
    area of rows 0 and 1 only. The call for the stripe below begins at the last
    row of the picture region, \<^verbatim>\<open>i_area_end\<close>, and never reaches the second half
    of \<^verbatim>\<open>SetBufferArea\<close>.
  \<^item> A mark of rows 2 to 5 on the areas of rows 0 to 4, 10 to 14 and 20 to 24
    leaves one area of rows 0 to 24. The scan for the areas to merge tests
    \<^verbatim>\<open>pi_area_begin[i_area]\<close>, not \<^verbatim>\<open>pi_area_begin[i_area_copy]\<close>.
  \<^item> With lines of 16 bytes, the clear of the area of row 0 sets rows 0 and 1
    to zero. The loop for the bytes that remain stores a 64-bit word for every
    4 bytes.
\<close>

lemma SetBufferArea_left_out:
  "SetBufferArea ex_cfg
     (ex_buffer\<lparr>i_areas := 1, pi_area_begin := [10, 0, 0, 0, 0], pi_area_end := [14, 0, 0, 0, 0]\<rparr>)
     0 2 10 2 = Some (Inl AreaOverrun)
   \<and> SetBufferArea ex_cfg (ex_buffer\<lparr>i_pic_y := 2, i_pic_width := 640, i_pic_height := 3\<rparr>)
       0 0 10 8 =
       Some (Inr (ex_buffer\<lparr>i_pic_y := 2, i_pic_width := 640, i_pic_height := 3,
                              i_areas := 1, pi_area_end := [1, 0, 0, 0, 0]\<rparr>))
   \<and> SetBufferArea ex_cfg
       (ex_buffer\<lparr>i_areas := 3, pi_area_begin := [0, 10, 20, 0, 0],
                   pi_area_end := [4, 14, 24, 0, 0]\<rparr>)
       0 2 10 4 =
       Some (Inr (ex_buffer\<lparr>i_areas := 1, pi_area_begin := [0, 10, 20, 0, 0],
                              pi_area_end := [24, 14, 24, 0, 0]\<rparr>))
   \<and> SetBufferPicture_clear 16 (ex_buffer\<lparr>i_areas := 1, buffer_data := replicate 48 7\<rparr>) 0 =
       Inr (ex_buffer\<lparr>i_areas := 1, buffer_data := replicate 32 0 @ replicate 16 7\<rparr>)"
  by code_simp

end
